theory Spec2Isabelle
  imports Main "HOL-Library.Word"
begin

section \<open>Bytes, GUIDs and the library helpers behind the packet codec\<close>

text \<open>
  Byte strings are lists of 8-bit characters. A \<^verbatim>\<open>uuid.UUID\<close> is its 128-bit integer
  (\<^verbatim>\<open>UUID.int\<close>); \<^verbatim>\<open>uuid.UUID(int=0)\<close> is the word \<open>0\<close>. An optional GUID
  (\<^verbatim>\<open>uuid.UUID | None\<close>) is an \<open>option\<close>. A \<^verbatim>\<open>UUID\<close> object defines neither
  \<^verbatim>\<open>__bool__\<close> nor \<^verbatim>\<open>__len__\<close>, so every \<^verbatim>\<open>UUID\<close> is truthy and only
  \<^verbatim>\<open>None\<close> is falsy.
\<close>

type_synonym bytes = string
type_synonym uuid = "128 word"

definition LF :: char where
  "LF = CHR 0x0A"

definition QUOTE :: char where
  "QUOTE = CHR 0x27"

text \<open>\<^verbatim>\<open>'%032x' % n\<close> for \<open>n < 16 ^ 32\<close>: lower-case hexadecimal, zero padded.\<close>

definition hexdigit_lower :: "nat \<Rightarrow> char" where
  "hexdigit_lower d = ''0123456789abcdef'' ! d"

fun hex_pad :: "nat \<Rightarrow> nat \<Rightarrow> string" where
  "hex_pad 0 n = []"
| "hex_pad (Suc w) n = hex_pad w (n div 16) @ [hexdigit_lower (n mod 16)]"

text \<open>
  \<^verbatim>\<open>UUID.__str__\<close>: \<^verbatim>\<open>hex = '%032x' % self.int\<close>, then
  \<^verbatim>\<open>'%s-%s-%s-%s-%s' % (hex[:8], hex[8:12], hex[12:16], hex[16:20], hex[20:])\<close>.
\<close>

definition uuid_str :: "uuid \<Rightarrow> string" where
  "uuid_str u =
     (let hex = hex_pad 32 (unat u)
      in take 8 hex @ ''-'' @ take 4 (drop 8 hex) @ ''-'' @ take 4 (drop 12 hex) @ ''-''
         @ take 4 (drop 16 hex) @ ''-'' @ drop 20 hex)"

text \<open>\<^verbatim>\<open>str.lower()\<close> on ASCII text.\<close>

definition lower_char :: "char \<Rightarrow> char" where
  "lower_char c =
     (if 65 \<le> (of_char c :: nat) \<and> (of_char c :: nat) \<le> 90
      then char_of ((of_char c :: nat) + 32) else c)"

definition lower :: "string \<Rightarrow> string" where
  "lower s = map lower_char s"

text \<open>\<^verbatim>\<open>base64.b64encode\<close>: the standard alphabet, three bytes to four characters,
  padded with \<open>=\<close>, no line breaks.\<close>

definition b64_alphabet :: string where
  "b64_alphabet = ''ABCDEFGHIJKLMNOPQRSTUVWXYZabcdefghijklmnopqrstuvwxyz0123456789+/''"

definition b64char :: "nat \<Rightarrow> char" where
  "b64char n = b64_alphabet ! (n mod 64)"

fun b64encode :: "bytes \<Rightarrow> bytes" where
  "b64encode [] = []"
| "b64encode [a] =
     (let x = (of_char a :: nat)
      in [b64char (x div 4), b64char ((x mod 4) * 16), CHR ''='', CHR ''=''])"
| "b64encode [a, b] =
     (let x = (of_char a :: nat); y = (of_char b :: nat)
      in [b64char (x div 4), b64char ((x mod 4) * 16 + y div 16),
          b64char ((y mod 16) * 4), CHR ''=''])"
| "b64encode (a # b # c # rest) =
     (let x = (of_char a :: nat); y = (of_char b :: nat); z = (of_char c :: nat)
      in [b64char (x div 4), b64char ((x mod 4) * 16 + y div 16),
          b64char ((y mod 16) * 4 + z div 64), b64char (z mod 64)] @ b64encode rest)"

text \<open>
  The \<^verbatim>\<open>%\<close> operator on a bytes template, for the \<^verbatim>\<open>%s\<close> conversions the codec
  uses: each \<^verbatim>\<open>%s\<close> is replaced by the next argument, which is copied and not scanned
  again. (With too few arguments Python raises; the codec always passes as many arguments
  as the template has conversions.)
\<close>

fun bformat :: "bytes \<Rightarrow> bytes list \<Rightarrow> bytes" where
  "bformat [] args = []"
| "bformat [c] args = [c]"
| "bformat (c # d # rest) args =
     (if c = CHR ''%'' \<and> d = CHR ''s''
      then (case args of
              [] \<Rightarrow> c # bformat (d # rest) args
            | a # args' \<Rightarrow> a @ bformat rest args')
      else c # bformat (d # rest) args)"

section \<open>Packet codec: \<^verbatim>\<open>ps_data_packet\<close> and \<^verbatim>\<open>ps_guid_packet\<close>\<close>

datatype StreamType = StreamDefault | StreamPromptResponse

text \<open>\<^verbatim>\<open>ps_guid or uuid.UUID(int=0)\<close>.\<close>

definition guid_or_zero :: "uuid option \<Rightarrow> uuid" where
  "guid_or_zero ps_guid = (case ps_guid of None \<Rightarrow> 0 | Some g \<Rightarrow> g)"

definition ps_data_packet :: "bytes \<Rightarrow> StreamType \<Rightarrow> uuid option \<Rightarrow> bytes" where
  "ps_data_packet data stream_type ps_guid =
     (let ps_guid' = guid_or_zero ps_guid;
          stream_name = (if stream_type = StreamDefault then ''Default'' else ''PromptResponse'')
      in bformat ''<Data Stream='%s' PSGuid='%s'>%s</Data>\<newline>''
           [stream_name, lower (uuid_str ps_guid'), b64encode data])"

definition ps_guid_packet :: "bytes \<Rightarrow> uuid option \<Rightarrow> bytes" where
  "ps_guid_packet element ps_guid =
     (let ps_guid' = guid_or_zero ps_guid
      in bformat ''<%s PSGuid='%s' />\<newline>'' [element, lower (uuid_str ps_guid')])"

text \<open>
  The rendering the specification names: 32 lower-case hexadecimal digits of the 128-bit
  value, most significant first, in groups of 8, 4, 4, 4 and 12 separated by hyphens.
  Digit \<open>k\<close> (from the left, starting at 0) is \<open>(n div 16 ^ (31 - k)) mod 16\<close>.
\<close>

definition guid_digits :: "uuid \<Rightarrow> nat \<Rightarrow> nat \<Rightarrow> string" where
  "guid_digits u i n =
     map (\<lambda>k. hexdigit_lower ((unat u div 16 ^ (31 - k)) mod 16)) [i ..< i + n]"

definition guid_lowercase_hyphenated :: "uuid \<Rightarrow> string" where
  "guid_lowercase_hyphenated u =
     guid_digits u 0 8 @ ''-'' @ guid_digits u 8 4 @ ''-'' @ guid_digits u 12 4 @ ''-''
     @ guid_digits u 16 4 @ ''-'' @ guid_digits u 20 12"

section \<open>Exceptions\<close>

text \<open>
  A raised exception is a value: its class and its message (\<^verbatim>\<open>str(e)\<close>). Every class
  below is a subclass of \<^verbatim>\<open>Exception\<close>, so an \<^verbatim>\<open>except Exception\<close> clause catches each
  of them; \<^verbatim>\<open>CodecError\<close> stands for whatever the PSRP codec library raises.
  \<^verbatim>\<open>SystemExit\<close> (raised by \<^verbatim>\<open>sys.exit()\<close>) is not an \<^verbatim>\<open>Exception\<close>; the functions
  that can raise it have an outcome of their own for it.
\<close>

datatype exn_class =
  ParseError | KeyError | ValueError | BinasciiError | RuntimeError | IndexError
  | StructError | SyntaxError | PlainException | CodecError

datatype exn = Exn (exn_class: exn_class) (exn_str: string)

section \<open>Pipe-name deriver: \<^verbatim>\<open>get_pipe_name\<close>\<close>

text \<open>\<^verbatim>\<open>str(n)\<close> for an integer: decimal digits, a minus sign for a negative number.\<close>

fun str_nat :: "nat \<Rightarrow> string" where
  "str_nat n =
     (if n < 10 then [''0123456789'' ! n]
      else str_nat (n div 10) @ [''0123456789'' ! (n mod 10)])"

definition str_int :: "int \<Rightarrow> string" where
  "str_int n = (if n < 0 then ''-'' @ str_nat (nat (- n)) else str_nat (nat n))"

text \<open>
  A \<^verbatim>\<open>datetime.timedelta\<close> is its three normalised integer fields. The process facts the
  function reads from its environment are collected in one record: whether \<^verbatim>\<open>psutil\<close>
  was imported, \<^verbatim>\<open>os.getpid()\<close>, \<^verbatim>\<open>proc.name()\<close>, the difference \<^verbatim>\<open>td\<close> between the
  process create-time converted to UTC and the Unix epoch, \<^verbatim>\<open>os.name\<close> and the
  \<^verbatim>\<open>TMPDIR\<close> entry of \<^verbatim>\<open>os.environ\<close> (absent: \<open>None\<close>).
\<close>

record timedelta =
  days :: int
  seconds :: int
  microseconds :: int

record proc_env =
  has_psutil :: bool
  pid :: nat
  process_name :: string
  create_td :: timedelta
  os_name :: string
  environ_TMPDIR :: "string option"

text \<open>\<^verbatim>\<open>struct.pack(">Q", n)\<close>: eight bytes, most significant first; \<^verbatim>\<open>struct.error\<close>
  when \<open>n\<close> is not an unsigned 64-bit value.\<close>

definition pack_Q_be :: "int \<Rightarrow> exn + bytes" where
  "pack_Q_be n =
     (if 0 \<le> n \<and> n < 2 ^ 64
      then Inr (map (\<lambda>i. char_of ((n div 256 ^ (7 - i)) mod 256)) [0 ..< 8])
      else Inl (Exn StructError ''argument out of range''))"

text \<open>\<^verbatim>\<open>base64.b16encode\<close>: two upper-case hexadecimal digits for each byte.\<close>

definition hexdigit_upper :: "nat \<Rightarrow> char" where
  "hexdigit_upper d = ''0123456789ABCDEF'' ! d"

definition b16encode :: "bytes \<Rightarrow> bytes" where
  "b16encode bs =
     concat (map (\<lambda>b. [hexdigit_upper ((of_char b :: nat) div 16),
                        hexdigit_upper ((of_char b :: nat) mod 16)]) bs)"

text \<open>\<^verbatim>\<open>s.lstrip("0")\<close>.\<close>

definition lstrip0 :: "string \<Rightarrow> string" where
  "lstrip0 s = dropWhile (\<lambda>c. c = CHR ''0'') s"

text \<open>\<^verbatim>\<open>os.path.join(a, b)\<close> on POSIX, for two components.\<close>

definition posix_join :: "string \<Rightarrow> string \<Rightarrow> string" where
  "posix_join a b =
     (if take 1 b = ''/'' then b
      else if a = [] \<or> last a = CHR ''/'' then a @ b
      else a @ ''/'' @ b)"

definition start_time_ft :: "timedelta \<Rightarrow> int" where
  "start_time_ft td =
     116444736000000000
     + ((microseconds td + (seconds td + days td * 24 * 3600) * 10 ^ 6) * 10)"

definition get_pipe_name :: "proc_env \<Rightarrow> exn + string" where
  "get_pipe_name env =
     (if \<not> has_psutil env
      then Inl (Exn PlainException
        ''Using --pipe without a custom pipe name requires the psutil package to be installed.'')
      else
        let ft = start_time_ft (create_td env)
        in if os_name env = ''nt''
           then Inr ([CHR 0x5C, CHR 0x5C] @ ''.'' @ [CHR 0x5C] @ ''pipe'' @ [CHR 0x5C]
                     @ ''PSHost.'' @ str_int ft @ ''.'' @ str_nat (pid env)
                     @ ''.DefaultAppDomain.'' @ process_name env)
           else
             (case pack_Q_be ft of
                Inl e \<Rightarrow> Inl e
              | Inr packed \<Rightarrow>
                  let start_time = take 8 (drop 1 (lstrip0 (b16encode packed)));
                      tmpdir = (case environ_TMPDIR env of None \<Rightarrow> ''/tmp'' | Some d \<Rightarrow> d)
                  in Inr (posix_join tmpdir
                       (''CoreFxPipe_PSHost.'' @ start_time @ ''.'' @ str_nat (pid env)
                        @ ''.None.'' @ process_name env))))"

text \<open>
  The specification's words for the POSIX start time: the FILETIME value as 16 upper-case
  hexadecimal digits (digit \<open>k\<close> from the left is \<open>(ft div 16 ^ (15 - k)) mod 16\<close>), leading
  zeros stripped, then the characters at positions 1 to 8 of what remains.
\<close>

definition spec_hex16_upper :: "int \<Rightarrow> string" where
  "spec_hex16_upper ft = map (\<lambda>k. hexdigit_upper (nat ((ft div 16 ^ (15 - k)) mod 16))) [0 ..< 16]"

definition spec_start_time :: "int \<Rightarrow> string" where
  "spec_start_time ft =
     take 8 (drop 1 (dropWhile (\<lambda>c. c = CHR ''0'') (spec_hex16_upper ft)))"

text \<open>Microseconds since the Unix epoch of a time difference.\<close>

definition total_microseconds :: "timedelta \<Rightarrow> int" where
  "total_microseconds td = microseconds td + 1000000 * (seconds td + 86400 * days td)"

text \<open>The fixture of the specification: pid 1234, created 1 700 000 000 seconds after the
  epoch, process name \<^verbatim>\<open>pwsh\<close>; here with \<^verbatim>\<open>TMPDIR=/tmp/\<close>.\<close>

definition fixture_env :: proc_env where
  "fixture_env =
     \<lparr>has_psutil = True, pid = 1234, process_name = ''pwsh'',
      create_td = \<lparr>days = 19675, seconds = 80000, microseconds = 0\<rparr>,
      os_name = ''posix'', environ_TMPDIR = Some ''/tmp/''\<rparr>"

section \<open>Script parameters: the loop of \<^verbatim>\<open>PipelineThread._exec\<close>\<close>

text \<open>
  \<^verbatim>\<open>for raw_name, raw_value in raw_parameters:\<close> appends every value to
  \<^verbatim>\<open>arguments\<close> and stores it in \<^verbatim>\<open>parameters\<close> under its name when it has one.
  The result is the pair (\<^verbatim>\<open>arguments\<close>, \<^verbatim>\<open>parameters\<close>) that the
  \<^verbatim>\<open>PSCmdlet\<close> is built from (\<^verbatim>\<open>args=arguments\<close>, \<^verbatim>\<open>params=parameters\<close>).
\<close>

definition exec_parameters ::
  "(string option \<times> 'v) list \<Rightarrow> 'v list \<times> (string \<rightharpoonup> 'v)" where
  "exec_parameters raw_parameters =
     foldl (\<lambda>(arguments, parameters) (raw_name, raw_value).
              (arguments @ [raw_value],
               (case raw_name of None \<Rightarrow> parameters
                | Some name \<Rightarrow> parameters(name \<mapsto> raw_value))))
       ([], Map.empty) raw_parameters"

text \<open>The named pairs of a parameter list, and its unnamed values.\<close>

fun named_pairs :: "(string option \<times> 'v) list \<Rightarrow> (string \<times> 'v) list" where
  "named_pairs [] = []"
| "named_pairs ((None, v) # ps) = named_pairs ps"
| "named_pairs ((Some n, v) # ps) = (n, v) # named_pairs ps"

fun unnamed_values :: "(string option \<times> 'v) list \<Rightarrow> 'v list" where
  "unnamed_values [] = []"
| "unnamed_values ((None, v) # ps) = v # unnamed_values ps"
| "unnamed_values ((Some n, v) # ps) = unnamed_values ps"

section \<open>The libraries the server calls\<close>

text \<open>
  The PSRP codec (\<^verbatim>\<open>psrpcore\<close>), the XML parser, the \<^verbatim>\<open>uuid\<close> and \<^verbatim>\<open>base64\<close>
  decoders and \<^verbatim>\<open>traceback\<close> are not part of the server. Their data is modelled by
  the types below; their operations are the fields of one record \<open>ext\<close>, over which every
  function of the server is parameterised, so that a property proved of the server holds
  for every behaviour of the libraries.
\<close>

datatype RunspacePoolState =
  BeforeOpen | Opening | Opened | Closed | Closing | Broken
  | NegotiationSent | NegotiationSucceeded | Connecting | Disconnected

datatype PSInvocationState =
  NotStarted | Running | Stopping | Stopped | Completed | Failed | InvocationDisconnected

datatype ErrorCategory = NotSpecified | ReadError | ParserError | OtherCategory nat

record NETException =
  Message :: string
  StackTrace :: string

record ErrorCategoryInfo =
  Category :: ErrorCategory
  Activity :: "string option"
  Reason :: "string option"
  TargetName :: "string option"
  TargetType :: "string option"

record ErrorRecord =
  Exception :: NETException
  CategoryInfo :: ErrorCategoryInfo
  FullyQualifiedErrorId :: "string option"

text \<open>\<^verbatim>\<open>psrpcore.PSRPPayload\<close>, a named tuple of three fields (never falsy).\<close>

record PSRPPayload =
  payload_data :: bytes
  payload_stream_type :: StreamType
  payload_pipeline_id :: "uuid option"

record 'v Command =
  command_text :: string
  command_parameters :: "(string option \<times> 'v) list"

record 'v PowerShell =
  no_input :: bool
  commands :: "'v Command list"

text \<open>The events of \<^verbatim>\<open>next_event()\<close> the server distinguishes; \<open>'v\<close> is the type of
  PowerShell objects. A host response carries a call id, an error (or \<^verbatim>\<open>None\<close>) and a
  result (or \<^verbatim>\<open>None\<close>).\<close>

datatype 'v PSRPEvent =
  CreatePipelineEvent "'v PowerShell"
  | PipelineInputEvent 'v
  | EndOfPipelineInputEvent
  | PipelineHostResponseEvent nat "ErrorRecord option" "'v option"
  | RunspacePoolHostResponseEvent nat "ErrorRecord option" "'v option"
  | OtherEvent string

text \<open>What a host-result map stores under a call id:
  \<^verbatim>\<open>event.error if event.error is not None else event.result\<close>.\<close>

datatype 'v host_value = HostError ErrorRecord | HostResult "'v option"

definition host_response_value :: "ErrorRecord option \<Rightarrow> 'v option \<Rightarrow> 'v host_value" where
  "host_response_value err res = (case err of Some e \<Rightarrow> HostError e | None \<Rightarrow> HostResult res)"

record HostInfo =
  UseRunspaceHost :: bool
  IsHostUINull :: bool

text \<open>An \<^verbatim>\<open>ElementTree\<close> element: tag, attribute dictionary, text (\<^verbatim>\<open>None\<close> when the
  element has none).\<close>

record Element =
  el_tag :: string
  el_attrib :: "string \<rightharpoonup> string"
  el_text :: "string option"

text \<open>
  A method of the codec takes the state \<open>'rp\<close> of the runspace pool (which holds its
  pipelines, addressed by their id) and returns its result or the exception it raised,
  with the state it left behind.
\<close>

record ('rp, 'v) ext =
  fromstring :: "bytes \<Rightarrow> exn + Element"
  UUID :: "string \<Rightarrow> exn + uuid"
  b64decode :: "string \<Rightarrow> exn + bytes"
  format_exc :: "exn \<Rightarrow> string"
  dedent :: "string \<Rightarrow> string"
  receive_data :: "PSRPPayload \<Rightarrow> 'rp \<Rightarrow> (exn + unit) \<times> 'rp"
  next_event :: "'rp \<Rightarrow> (exn + 'v PSRPEvent option) \<times> 'rp"
  data_to_send :: "'rp \<Rightarrow> (exn + PSRPPayload option) \<times> 'rp"
  pool_close :: "'rp \<Rightarrow> (exn + unit) \<times> 'rp"
  set_broken :: "ErrorRecord \<Rightarrow> 'rp \<Rightarrow> (exn + unit) \<times> 'rp"
  pool_state :: "'rp \<Rightarrow> RunspacePoolState"
  runspace_pool_id :: "'rp \<Rightarrow> uuid"
  pool_host :: "'rp \<Rightarrow> HostInfo option"
  ServerPipeline :: "uuid \<Rightarrow> 'rp \<Rightarrow> (exn + unit) \<times> 'rp"
  pipeline_state :: "uuid \<Rightarrow> 'rp \<Rightarrow> PSInvocationState"
  pipeline_host :: "uuid \<Rightarrow> 'rp \<Rightarrow> HostInfo option"
  pipeline_start :: "uuid \<Rightarrow> 'rp \<Rightarrow> (exn + unit) \<times> 'rp"
  pipeline_complete :: "uuid \<Rightarrow> 'rp \<Rightarrow> (exn + unit) \<times> 'rp"
  pipeline_stop :: "uuid \<Rightarrow> 'rp \<Rightarrow> (exn + unit) \<times> 'rp"
  pipeline_begin_stop :: "uuid \<Rightarrow> 'rp \<Rightarrow> (exn + unit) \<times> 'rp"
  pipeline_close :: "uuid \<Rightarrow> 'rp \<Rightarrow> (exn + unit) \<times> 'rp"
  pipeline_write_error ::
    "uuid \<Rightarrow> NETException \<Rightarrow> ErrorCategoryInfo \<Rightarrow> string \<Rightarrow> 'rp \<Rightarrow> (exn + unit) \<times> 'rp"
  pipeline_change_state ::
    "uuid \<Rightarrow> PSInvocationState \<Rightarrow> ErrorRecord \<Rightarrow> 'rp \<Rightarrow> (exn + unit) \<times> 'rp"

section \<open>State, exceptions and output\<close>

text \<open>
  An action on a state \<open>'s\<close> returns its result or the exception it raised, and the state
  as the action left it: what was mutated before a \<^verbatim>\<open>raise\<close> stays mutated.
\<close>

type_synonym ('s, 'a) act = "'s \<Rightarrow> (exn + 'a) \<times> 's"

definition ret :: "'a \<Rightarrow> ('s, 'a) act" where
  "ret v s = (Inr v, s)"

definition bind :: "('s, 'a) act \<Rightarrow> ('a \<Rightarrow> ('s, 'b) act) \<Rightarrow> ('s, 'b) act" where
  "bind m f s = (case m s of (Inl e, s') \<Rightarrow> (Inl e, s') | (Inr v, s') \<Rightarrow> f v s')"

text \<open>
  The part of the state every thread of the server shares: the runspace pool of the codec
  and the connection, of which the model keeps the byte strings handed to
  \<^verbatim>\<open>conn.send\<close>, in order. (\<^verbatim>\<open>_write\<close> holds the write lock for one \<^verbatim>\<open>send\<close>; a
  failing \<^verbatim>\<open>send\<close> is not modelled.)
\<close>

record 'rp io =
  pool :: 'rp
  wire :: "bytes list"

definition on_pool :: "('rp \<Rightarrow> (exn + 'a) \<times> 'rp) \<Rightarrow> (('rp, 'm) io_scheme, 'a) act" where
  "on_pool f s = (case f (pool s) of (r, rp) \<Rightarrow> (r, s\<lparr>pool := rp\<rparr>))"

definition transport_write :: "bytes \<Rightarrow> (('rp, 'm) io_scheme, unit) act" where
  "transport_write d s = (Inr (), s\<lparr>wire := wire s @ [d]\<rparr>)"

definition close_ack :: "uuid option \<Rightarrow> (('rp, 'm) io_scheme, unit) act" where
  "close_ack p = transport_write (ps_guid_packet ''CloseAck'' p)"

definition command_ack :: "uuid option \<Rightarrow> (('rp, 'm) io_scheme, unit) act" where
  "command_ack p = transport_write (ps_guid_packet ''CommandAck'' p)"

definition data_ack :: "uuid option \<Rightarrow> (('rp, 'm) io_scheme, unit) act" where
  "data_ack p = transport_write (ps_guid_packet ''DataAck'' p)"

definition signal_ack :: "uuid option \<Rightarrow> (('rp, 'm) io_scheme, unit) act" where
  "signal_ack p = transport_write (ps_guid_packet ''SignalAck'' p)"

text \<open>\<^verbatim>\<open>OutOfProcTransport.data\<close>: \<^verbatim>\<open>self._write(ps_data_packet(*data))\<close>.\<close>

definition transport_data :: "PSRPPayload \<Rightarrow> (('rp, 'm) io_scheme, unit) act" where
  "transport_data p =
     transport_write
       (ps_data_packet (payload_data p) (payload_stream_type p) (payload_pipeline_id p))"

text \<open>\<^verbatim>\<open>PipelineThread._send_data\<close>, and the same two lines where
  \<^verbatim>\<open>RunspaceThread\<close> and the read loop have them.\<close>

definition send_data :: "('rp, 'v) ext \<Rightarrow> (('rp, 'm) io_scheme, unit) act" where
  "send_data x =
     bind (on_pool (data_to_send x))
       (\<lambda>d. case d of None \<Rightarrow> ret () | Some p \<Rightarrow> transport_data p)"

section \<open>Worker threads\<close>

text \<open>
  A thread is modelled by its queue and the variables of its \<^verbatim>\<open>run\<close> loop. A worker
  takes its events when it is joined: \<^verbatim>\<open>put\<close> appends to the queue, \<^verbatim>\<open>join\<close> runs the
  loop over what is queued. This is one of the schedules the threads allow, that of a
  worker which is slow to take its events. A loop that finds its queue empty waits; one
  that meets an uncaught exception ends, as a Python thread does.
  The script subthread a pipeline worker starts is recorded in \<open>worker\<close> (script and
  parameters); its body is \<open>PipelineThread_exec\<close> below. No one joins it.
\<close>

datatype thread_exit = Finished | Died exn | Blocked

record 'v PipelineThread =
  event_queue :: "'v PSRPEvent option list"
  host_result :: "nat \<rightharpoonup> 'v host_value"
  pipeline_input :: "'v list"
  input_complete :: bool
  worker :: "(string \<times> (string option \<times> 'v) list) option"

text \<open>A thread as \<^verbatim>\<open>PipelineThread.__init__\<close> and the first lines of \<^verbatim>\<open>run\<close> leave it.\<close>

definition new_PipelineThread :: "'v PipelineThread" where
  "new_PipelineThread =
     \<lparr>event_queue = [], host_result = Map.empty, pipeline_input = [],
      input_complete = True, worker = None\<rparr>"

definition start_pwsh_pipeline ::
  "('rp, 'v) ext \<Rightarrow> 'v PowerShell \<Rightarrow> 'v PipelineThread \<Rightarrow> exn + 'v PipelineThread" where
  "start_pwsh_pipeline x info th =
     (case commands info of
        [] \<Rightarrow> Inl (Exn IndexError ''list index out of range'')
      | c # _ \<Rightarrow> Inr (th\<lparr>worker := Some (dedent x (command_text c), command_parameters c)\<rparr>))"

definition pipeline_handle_event ::
  "('rp, 'v) ext \<Rightarrow> 'v PSRPEvent \<Rightarrow> 'v PipelineThread \<Rightarrow> exn + 'v PipelineThread" where
  "pipeline_handle_event x ev th =
     (case ev of
        CreatePipelineEvent info \<Rightarrow>
          start_pwsh_pipeline x info (th\<lparr>input_complete := no_input info\<rparr>)
      | PipelineInputEvent d \<Rightarrow> Inr (th\<lparr>pipeline_input := pipeline_input th @ [d]\<rparr>)
      | EndOfPipelineInputEvent \<Rightarrow> Inr (th\<lparr>input_complete := True\<rparr>)
      | PipelineHostResponseEvent ci err res \<Rightarrow>
          Inr (th\<lparr>host_result := (host_result th)(ci \<mapsto> host_response_value err res)\<rparr>)
      | RunspacePoolHostResponseEvent ci err res \<Rightarrow> Inr th
      | OtherEvent n \<Rightarrow> Inr th)"

text \<open>\<^verbatim>\<open>PipelineThread.run\<close> over the queued events (\<open>None\<close> is the sentinel).\<close>

fun pipeline_run ::
  "('rp, 'v) ext \<Rightarrow> 'v PSRPEvent option list \<Rightarrow> 'v PipelineThread \<Rightarrow> ('rp, 'm) io_scheme
   \<Rightarrow> thread_exit \<times> 'v PipelineThread \<times> ('rp, 'm) io_scheme" where
  "pipeline_run x [] th s = (Blocked, th\<lparr>event_queue := []\<rparr>, s)"
| "pipeline_run x (None # q) th s =
     (Finished, th\<lparr>event_queue := q, input_complete := True\<rparr>, s)"
| "pipeline_run x (Some ev # q) th s =
     (case pipeline_handle_event x ev th of
        Inl e \<Rightarrow> (Died e, th\<lparr>event_queue := q\<rparr>, s)
      | Inr th' \<Rightarrow>
          (case send_data x s of
             (Inl e, s') \<Rightarrow> (Died e, th'\<lparr>event_queue := q\<rparr>, s')
           | (Inr u, s') \<Rightarrow> pipeline_run x q th' s'))"

text \<open>\<^verbatim>\<open>PipelineThread.close\<close> and \<^verbatim>\<open>PipelineThread.stop\<close> of the pipeline \<open>p\<close>. Both
  take the pending output of the codec with \<^verbatim>\<open>data_to_send()\<close> and drop it
  (\<^verbatim>\<open>_ = self.runspace.data_to_send()\<close>).\<close>

definition PipelineThread_close ::
  "('rp, 'v) ext \<Rightarrow> uuid \<Rightarrow> 'v PipelineThread
   \<Rightarrow> (('rp, 'm) io_scheme, 'v PipelineThread) act" where
  "PipelineThread_close x p th =
     bind (\<lambda>s. if pipeline_state x p (pool s) = Running
                then on_pool (pipeline_begin_stop x p) s else ret () s)
       (\<lambda>_. bind (on_pool (pipeline_close x p))
         (\<lambda>_. bind (on_pool (data_to_send x))
           (\<lambda>_. ret (th\<lparr>event_queue := event_queue th @ [None]\<rparr>))))"

definition PipelineThread_stop ::
  "('rp, 'v) ext \<Rightarrow> uuid \<Rightarrow> (('rp, 'm) io_scheme, unit) act" where
  "PipelineThread_stop x p =
     bind (on_pool (pipeline_begin_stop x p))
       (\<lambda>_. bind (on_pool (data_to_send x)) (\<lambda>_. ret ()))"

section \<open>The transport: \<^verbatim>\<open>OutOfProcTransport\<close>\<close>

text \<open>
  The transport owns the table of pipeline workers and the runspace worker (its queue,
  its host-result map, whether its loop has ended). Every thread in \<open>pipelines\<close> has been
  started: \<^verbatim>\<open>_process_command\<close> is the only place that adds one and starts it at once.
  \<open>processed\<close> lists the raw elements handed to \<^verbatim>\<open>_process\<close>, as its first line logs
  them.
\<close>

record ('rp, 'v) transport = "'rp io" +
  pipelines :: "uuid \<rightharpoonup> 'v PipelineThread"
  rs_event_queue :: "'v PSRPEvent option list"
  rs_host_result :: "nat \<rightharpoonup> 'v host_value"
  rs_finished :: bool
  processed :: "bytes list"

text \<open>\<^verbatim>\<open>str(KeyError(key))\<close> for a \<^verbatim>\<open>UUID\<close> key is the \<^verbatim>\<open>repr\<close> of the key.\<close>

definition repr_uuid :: "uuid \<Rightarrow> string" where
  "repr_uuid u = ''UUID('' @ [QUOTE] @ uuid_str u @ [QUOTE] @ '')''"

text \<open>\<^verbatim>\<open>RunspaceThread.run\<close> over the queued events, \<^verbatim>\<open>RunspaceThread.close\<close> and
  \<^verbatim>\<open>join\<close>.\<close>

fun runspace_run ::
  "('rp, 'v) ext \<Rightarrow> 'v PSRPEvent option list \<Rightarrow> ('rp, 'v) transport
   \<Rightarrow> thread_exit \<times> ('rp, 'v) transport" where
  "runspace_run x [] t = (Blocked, t\<lparr>rs_event_queue := []\<rparr>)"
| "runspace_run x (None # q) t = (Finished, t\<lparr>rs_event_queue := q, rs_finished := True\<rparr>)"
| "runspace_run x (Some ev # q) t =
     (let t1 = (case ev of
                  RunspacePoolHostResponseEvent ci err res \<Rightarrow>
                    t\<lparr>rs_host_result := (rs_host_result t)(ci \<mapsto> host_response_value err res)\<rparr>
                | _ \<Rightarrow> t)
      in case send_data x t1 of
           (Inl e, t2) \<Rightarrow> (Died e, t2\<lparr>rs_event_queue := q, rs_finished := True\<rparr>)
         | (Inr u, t2) \<Rightarrow> runspace_run x q t2)"

definition RunspaceThread_close :: "('rp, 'v) ext \<Rightarrow> (('rp, 'v) transport, unit) act" where
  "RunspaceThread_close x =
     bind (on_pool (pool_close x))
       (\<lambda>_. bind (send_data x)
         (\<lambda>_ t. (Inr (), t\<lparr>rs_event_queue := rs_event_queue t @ [None]\<rparr>)))"

definition RunspaceThread_join ::
  "('rp, 'v) ext \<Rightarrow> ('rp, 'v) transport \<Rightarrow> ('rp, 'v) transport option" where
  "RunspaceThread_join x t =
     (if rs_finished t then Some t
      else case runspace_run x (rs_event_queue t) t of
             (Blocked, t') \<Rightarrow> None
           | (Finished, t') \<Rightarrow> Some t'
           | (Died e, t') \<Rightarrow> Some t')"

text \<open>
  The functions below that can wait for ever (a \<^verbatim>\<open>join\<close> of a thread that never ends,
  the event loop of \<^verbatim>\<open>_process_data\<close> on a codec that never runs out of events) return an
  \<open>option\<close>: \<open>None\<close> is "does not return".
\<close>

definition process_close ::
  "('rp, 'v) ext \<Rightarrow> uuid option \<Rightarrow> ('rp, 'v) transport
   \<Rightarrow> ((exn + unit) \<times> ('rp, 'v) transport) option" where
  "process_close x pipeline_id t =
     (case pipeline_id of
        Some p \<Rightarrow>
          (case pipelines t p of
             None \<Rightarrow> Some (Inl (Exn KeyError (repr_uuid p)), t)
           | Some th \<Rightarrow>
               (case PipelineThread_close x p th (t\<lparr>pipelines := (pipelines t)(p := None)\<rparr>) of
                  (Inl e, t1) \<Rightarrow> Some (Inl e, t1)
                | (Inr th1, t1) \<Rightarrow>
                    (case pipeline_run x (event_queue th1) th1 t1 of
                       (Blocked, th2, t2) \<Rightarrow> None
                     | (Finished, th2, t2) \<Rightarrow> Some (close_ack pipeline_id t2)
                     | (Died e, th2, t2) \<Rightarrow> Some (close_ack pipeline_id t2))))
      | None \<Rightarrow>
          (case RunspaceThread_close x t of
             (Inl e, t1) \<Rightarrow> Some (Inl e, t1)
           | (Inr u, t1) \<Rightarrow>
               (case RunspaceThread_join x t1 of
                  None \<Rightarrow> None
                | Some t2 \<Rightarrow> Some (close_ack pipeline_id t2))))"

definition process_command ::
  "('rp, 'v) ext \<Rightarrow> uuid option \<Rightarrow> (('rp, 'v) transport, unit) act" where
  "process_command x pipeline_id t =
     (case pipeline_id of
        None \<Rightarrow> (Inr (), t)
      | Some p \<Rightarrow>
          (case on_pool (ServerPipeline x p) t of
             (Inl e, t1) \<Rightarrow> (Inl e, t1)
           | (Inr u, t1) \<Rightarrow>
               (case pipelines t1 p of
                  Some th \<Rightarrow> (Inl (Exn RuntimeError ''threads can only be started once''), t1)
                | None \<Rightarrow>
                    command_ack pipeline_id
                      (t1\<lparr>pipelines := (pipelines t1)(p \<mapsto> new_PipelineThread)\<rparr>))))"

text \<open>The loop of \<^verbatim>\<open>_process_data\<close>: \<^verbatim>\<open>next_event()\<close> until it returns \<^verbatim>\<open>None\<close>, each
  event put on the queue of the pipeline \<open>pipeline_id\<close>, or of the runspace worker.\<close>

partial_function (option) drain_events ::
  "('rp, 'v) ext \<Rightarrow> uuid option \<Rightarrow> ('rp, 'v) transport
   \<Rightarrow> ((exn + unit) \<times> ('rp, 'v) transport) option" where
  "drain_events x pipeline_id t =
     (case on_pool (next_event x) t of
        (Inl e, t1) \<Rightarrow> Some (Inl e, t1)
      | (Inr None, t1) \<Rightarrow> Some (Inr (), t1)
      | (Inr (Some ev), t1) \<Rightarrow>
          (case pipeline_id of
             Some p \<Rightarrow>
               (case pipelines t1 p of
                  None \<Rightarrow> Some (Inl (Exn KeyError (repr_uuid p)), t1)
                | Some th \<Rightarrow>
                    drain_events x pipeline_id
                      (t1\<lparr>pipelines :=
                           (pipelines t1)(p \<mapsto> th\<lparr>event_queue := event_queue th @ [Some ev]\<rparr>)\<rparr>))
           | None \<Rightarrow>
               drain_events x pipeline_id
                 (t1\<lparr>rs_event_queue := rs_event_queue t1 @ [Some ev]\<rparr>)))"

definition process_data ::
  "('rp, 'v) ext \<Rightarrow> string option \<Rightarrow> string \<Rightarrow> uuid option \<Rightarrow> ('rp, 'v) transport
   \<Rightarrow> ((exn + unit) \<times> ('rp, 'v) transport) option" where
  "process_data x text_data stream pipeline_id t =
     (case (case text_data of
              None \<Rightarrow> Inr []
            | Some d \<Rightarrow> if d = [] then Inr [] else b64decode x d) of
        Inl e \<Rightarrow> Some (Inl e, t)
      | Inr psrp_data \<Rightarrow>
          (let st = (if stream = ''PromptResponse'' then StreamPromptResponse else StreamDefault)
           in case on_pool (receive_data x
                     \<lparr>payload_data = psrp_data, payload_stream_type = st,
                      payload_pipeline_id = pipeline_id\<rparr>) t of
                (Inl e, t1) \<Rightarrow> Some (Inl e, t1)
              | (Inr u, t1) \<Rightarrow>
                  (case drain_events x pipeline_id t1 of
                     None \<Rightarrow> None
                   | Some (Inl e, t2) \<Rightarrow> Some (Inl e, t2)
                   | Some (Inr u, t2) \<Rightarrow> Some (data_ack pipeline_id t2))))"

definition process_signal ::
  "('rp, 'v) ext \<Rightarrow> uuid option \<Rightarrow> (('rp, 'v) transport, unit) act" where
  "process_signal x pipeline_id t =
     (case pipeline_id of
        None \<Rightarrow> (Inr (), t)
      | Some p \<Rightarrow>
          (case pipelines t p of
             None \<Rightarrow> (Inl (Exn KeyError (repr_uuid p)), t)
           | Some th \<Rightarrow>
               bind (PipelineThread_stop x p) (\<lambda>_. signal_ack pipeline_id) t))"

text \<open>\<^verbatim>\<open>OutOfProcTransport._process\<close>. A missing \<^verbatim>\<open>PSGuid\<close> attribute is the
  \<^verbatim>\<open>KeyError\<close> of \<^verbatim>\<open>element.attrib["PSGuid"]\<close>; the zero GUID becomes \<^verbatim>\<open>None\<close>; the
  \<^verbatim>\<open>if\<close>/\<^verbatim>\<open>elif\<close> chain has no \<^verbatim>\<open>else\<close>.\<close>

definition process ::
  "('rp, 'v) ext \<Rightarrow> bytes \<Rightarrow> ('rp, 'v) transport
   \<Rightarrow> ((exn + unit) \<times> ('rp, 'v) transport) option" where
  "process x raw t0 =
     (let t = t0\<lparr>processed := processed t0 @ [raw]\<rparr>
      in case fromstring x raw of
           Inl e \<Rightarrow> Some (Inl e, t)
         | Inr element \<Rightarrow>
             (case el_attrib element ''PSGuid'' of
                None \<Rightarrow> Some (Inl (Exn KeyError ([QUOTE] @ ''PSGuid'' @ [QUOTE])), t)
              | Some guid_text \<Rightarrow>
                  (case UUID x guid_text of
                     Inl e \<Rightarrow> Some (Inl e, t)
                   | Inr u \<Rightarrow>
                       (let ps_guid = (if u = 0 then None else Some u)
                        in if el_tag element = ''Close'' then process_close x ps_guid t
                           else if el_tag element = ''Command''
                             then Some (process_command x ps_guid t)
                           else if el_tag element = ''Data''
                             then process_data x (el_text element)
                                    (case el_attrib element ''Stream'' of
                                       None \<Rightarrow> [] | Some s \<Rightarrow> s)
                                    ps_guid t
                           else if el_tag element = ''Signal''
                             then Some (process_signal x ps_guid t)
                           else Some (Inr (), t)))))"

text \<open>\<^verbatim>\<open>bytes.index\<close>: the position of the first occurrence, \<open>None\<close> for
  \<^verbatim>\<open>ValueError\<close>.\<close>

fun index_of :: "'a \<Rightarrow> 'a list \<Rightarrow> nat option" where
  "index_of c [] = None"
| "index_of c (y # ys) = (if y = c then Some 0 else map_option Suc (index_of c ys))"

text \<open>The error record the read loop builds when \<^verbatim>\<open>_process\<close> raises \<open>e\<close>.\<close>

definition read_error_record :: "('rp, 'v) ext \<Rightarrow> exn \<Rightarrow> 'rp \<Rightarrow> ErrorRecord" where
  "read_error_record x e rp =
     \<lparr>Exception = \<lparr>Message = exn_str e, StackTrace = format_exc x e\<rparr>,
      CategoryInfo =
        \<lparr>Category = ReadError, Activity = Some ''Parsing PSRP msg'',
         Reason = Some ''Unknown result'',
         TargetName = Some (''RunspacePool('' @ uuid_str (runspace_pool_id x rp) @ '')''),
         TargetType = Some ''RunspaceThread''\<rparr>,
      FullyQualifiedErrorId = Some ''ProcessRunspaceMessageFailure''\<rparr>"

text \<open>
  The \<^verbatim>\<open>while True\<close> loop of \<^verbatim>\<open>OutOfProcTransport.run\<close>. Its first argument lists what
  the successive calls of \<^verbatim>\<open>conn.read\<close> return; after the last chunk the peer has closed
  and \<^verbatim>\<open>read\<close> returns the empty byte string. \<open>buffer\<close> is the list of that name.
\<close>

fun read_loop ::
  "('rp, 'v) ext \<Rightarrow> bytes list \<Rightarrow> bytes list \<Rightarrow> ('rp, 'v) transport
   \<Rightarrow> ((exn + unit) \<times> ('rp, 'v) transport) option" where
  "read_loop x [] buffer t = Some (Inr (), t)"
| "read_loop x (chunk # chunks) buffer t =
     (if chunk = [] then Some (Inr (), t)
      else case index_of LF chunk of
             None \<Rightarrow> read_loop x chunks (buffer @ [chunk]) t
           | Some end_idx \<Rightarrow>
               (let raw_element = concat buffer @ take end_idx chunk;
                    buffer' = [drop (end_idx + 1) chunk]
                in case process x raw_element t of
                     None \<Rightarrow> None
                   | Some (Inr u, t1) \<Rightarrow> read_loop x chunks buffer' t1
                   | Some (Inl e, t1) \<Rightarrow>
                       (let err = read_error_record x e (pool t1)
                        in if pool_state x (pool t1) = Opened \<or> pool_state x (pool t1) = Broken
                           then Some (bind (on_pool (set_broken x err)) (\<lambda>_. send_data x) t1)
                           else Some (Inl e, t1))))"

definition run ::
  "('rp, 'v) ext \<Rightarrow> bytes list \<Rightarrow> ('rp, 'v) transport
   \<Rightarrow> ((exn + unit) \<times> ('rp, 'v) transport) option" where
  "run x chunks t = read_loop x chunks [] t"

section \<open>The script subthread: \<^verbatim>\<open>PSHost\<close> and \<^verbatim>\<open>PipelineThread._exec\<close>\<close>

text \<open>
  \<^verbatim>\<open>PSHost.__init__\<close> chooses the host of the pipeline when the pipeline has host
  information that does not ask for the runspace host, and the host of the runspace pool
  otherwise; with it goes the waiter and the host-result map of the pipeline worker or of
  the runspace worker.
\<close>

record PSHost =
  host_pipeline :: uuid
  host_info :: "HostInfo option"
  host_of_pipeline :: bool

definition PSHost_init :: "('rp, 'v) ext \<Rightarrow> uuid \<Rightarrow> 'rp \<Rightarrow> PSHost" where
  "PSHost_init x p rp =
     (case pipeline_host x p rp of
        Some h \<Rightarrow>
          if \<not> UseRunspaceHost h
          then \<lparr>host_pipeline = p, host_info = Some h, host_of_pipeline = True\<rparr>
          else \<lparr>host_pipeline = p, host_info = pool_host x rp, host_of_pipeline = False\<rparr>
      | None \<Rightarrow> \<lparr>host_pipeline = p, host_info = pool_host x rp, host_of_pipeline = False\<rparr>)"

text \<open>
  The state a script thread works on: the shared pool and connection, and the host-result
  map its \<^verbatim>\<open>PSHost\<close> is bound to (\<^verbatim>\<open>self._result\<close>).
\<close>

record ('rp, 'v) script_world = "'rp io" +
  bound_result :: "nat \<rightharpoonup> 'v host_value"

text \<open>
  \<^verbatim>\<open>Condition.wait_for(predicate)\<close>: the predicate is tested; while it is false the
  thread waits for a notification and tests again. Between two tests the other threads
  change the shared state: the list holds what they do before each wake-up. When the
  predicate is false and no notification is left, the thread waits for ever (\<open>None\<close>).
\<close>

fun wait_for :: "('s \<Rightarrow> bool) \<Rightarrow> ('s \<Rightarrow> 's) list \<Rightarrow> 's \<Rightarrow> 's option" where
  "wait_for predicate [] s = (if predicate s then Some s else None)"
| "wait_for predicate (f # fs) s = (if predicate s then Some s else wait_for predicate fs (f s))"

text \<open>The predicate of \<^verbatim>\<open>_send_data_with_response\<close>.\<close>

definition host_wake ::
  "('rp, 'v) ext \<Rightarrow> uuid \<Rightarrow> nat \<Rightarrow> ('rp, 'v) script_world \<Rightarrow> bool" where
  "host_wake x p call_id s =
     (bound_result s call_id \<noteq> None \<or> pipeline_state x p (pool s) \<noteq> Running)"

text \<open>
  \<^verbatim>\<open>PSHost._send_data_with_response\<close> returns the stored result, raises an
  \<^verbatim>\<open>Exception\<close>, or leaves through \<^verbatim>\<open>sys.exit()\<close>. (An \<^verbatim>\<open>ErrorRecord\<close> object is
  taken to be truthy, as an object without \<^verbatim>\<open>__bool__\<close> and \<^verbatim>\<open>__len__\<close> is.)
\<close>

datatype 'v host_return = HostReturned "'v option" | HostSystemExit

definition send_data_with_response ::
  "('rp, 'v) ext \<Rightarrow> uuid \<Rightarrow> nat
   \<Rightarrow> (('rp, 'v) script_world \<Rightarrow> ('rp, 'v) script_world) list
   \<Rightarrow> ('rp, 'v) script_world
   \<Rightarrow> ((exn + 'v host_return) \<times> ('rp, 'v) script_world) option" where
  "send_data_with_response x p call_id others s =
     (case send_data x s of
        (Inl e, s1) \<Rightarrow> Some (Inl e, s1)
      | (Inr u, s1) \<Rightarrow>
          (case wait_for (host_wake x p call_id) others s1 of
             None \<Rightarrow> None
           | Some s2 \<Rightarrow>
               (case bound_result s2 call_id of
                  Some stored \<Rightarrow>
                    (let s3 = s2\<lparr>bound_result := (bound_result s2)(call_id := None)\<rparr>
                     in case stored of
                          HostError er \<Rightarrow>
                            Some (Inl (Exn PlainException
                                    (''Received error from host call: ''
                                     @ Message (Exception er))), s3)
                        | HostResult r \<Rightarrow> Some (Inr (HostReturned r), s3))
                | None \<Rightarrow> Some (Inr HostSystemExit, s2))))"

text \<open>
  The \<^verbatim>\<open>PSCmdlet\<close> handed to the script, and how \<^verbatim>\<open>_exec\<close> builds it. \<open>'i\<close> is the
  type of the input iterator.
\<close>

record ('v, 'i) PSCmdlet =
  cmdlet_pipeline :: uuid
  cmdlet_input :: 'i
  cmdlet_host :: PSHost
  cmdlet_args :: "'v list"
  cmdlet_params :: "string \<rightharpoonup> 'v"

definition exec_cmdlet ::
  "('rp, 'v) ext \<Rightarrow> uuid \<Rightarrow> (string option \<times> 'v) list \<Rightarrow> 'i \<Rightarrow> 'rp \<Rightarrow> ('v, 'i) PSCmdlet" where
  "exec_cmdlet x p raw_parameters input_data rp =
     (case exec_parameters raw_parameters of
        (arguments, parameters) \<Rightarrow>
          \<lparr>cmdlet_pipeline = p, cmdlet_input = input_data, cmdlet_host = PSHost_init x p rp,
           cmdlet_args = arguments, cmdlet_params = parameters\<rparr>)"

text \<open>
  How \<^verbatim>\<open>exec(code, exec_globals)\<close> ends: it returns, raises an \<^verbatim>\<open>Exception\<close>
  (a \<^verbatim>\<open>SyntaxError\<close> is one), or raises \<^verbatim>\<open>SystemExit\<close>. The script itself is a
  parameter: given the code and the \<^verbatim>\<open>PSCmdlet\<close> it acts on the shared state.
\<close>

datatype script_outcome = ScriptReturned | ScriptRaised exn | ScriptSystemExit

text \<open>The handlers \<^verbatim>\<open>except SyntaxError\<close> and \<^verbatim>\<open>except Exception\<close> of the inner
  \<^verbatim>\<open>try\<close>.\<close>

definition exec_except ::
  "('rp, 'v) ext \<Rightarrow> uuid \<Rightarrow> exn \<Rightarrow> (('rp, 'm) io_scheme, unit) act" where
  "exec_except x p e =
     (if exn_class e = SyntaxError
      then on_pool (pipeline_change_state x p Failed
             \<lparr>Exception = \<lparr>Message = exn_str e, StackTrace = format_exc x e\<rparr>,
              CategoryInfo =
                \<lparr>Category = ParserError, Activity = None, Reason = Some ''InvalidPythonSyntax'',
                 TargetName = None, TargetType = None\<rparr>,
              FullyQualifiedErrorId = Some ''InvalidPythonSyntax''\<rparr>)
      else bind (on_pool (pipeline_write_error x p
                   \<lparr>Message = exn_str e, StackTrace = format_exc x e\<rparr>
                   \<lparr>Category = NotSpecified, Activity = None,
                    Reason = Some ''UncaughtPythonException'',
                    TargetName = None, TargetType = None\<rparr>
                   ''UncaughtPythonException''))
             (\<lambda>_. on_pool (pipeline_complete x p)))"

text \<open>The inner \<^verbatim>\<open>try\<close>: the script and \<^verbatim>\<open>self.pipeline.complete()\<close> are both inside
  it, so an exception of \<^verbatim>\<open>complete()\<close> reaches the same handlers.\<close>

definition exec_try ::
  "('rp, 'v) ext \<Rightarrow> (string \<Rightarrow> ('v, 'i) PSCmdlet \<Rightarrow> ('rp, 'm) io_scheme
       \<Rightarrow> script_outcome \<times> ('rp, 'm) io_scheme)
   \<Rightarrow> uuid \<Rightarrow> string \<Rightarrow> ('v, 'i) PSCmdlet \<Rightarrow> (('rp, 'm) io_scheme, unit) act" where
  "exec_try x script p code cmdlet s =
     (case script code cmdlet s of
        (ScriptReturned, s1) \<Rightarrow>
          (case on_pool (pipeline_complete x p) s1 of
             (Inr u, s2) \<Rightarrow> (Inr (), s2)
           | (Inl e, s2) \<Rightarrow> exec_except x p e s2)
      | (ScriptRaised e, s1) \<Rightarrow> exec_except x p e s1
      | (ScriptSystemExit, s1) \<Rightarrow> on_pool (pipeline_stop x p) s1)"

text \<open>\<^verbatim>\<open>PipelineThread._exec\<close>. The outer \<^verbatim>\<open>try\<close> logs any \<^verbatim>\<open>Exception\<close> and returns,
  so the function returns the state only.\<close>

definition PipelineThread_exec ::
  "('rp, 'v) ext \<Rightarrow> (string \<Rightarrow> ('v, 'i) PSCmdlet \<Rightarrow> ('rp, 'm) io_scheme
       \<Rightarrow> script_outcome \<times> ('rp, 'm) io_scheme)
   \<Rightarrow> uuid \<Rightarrow> string \<Rightarrow> (string option \<times> 'v) list \<Rightarrow> 'i
   \<Rightarrow> ('rp, 'm) io_scheme \<Rightarrow> ('rp, 'm) io_scheme" where
  "PipelineThread_exec x script p code raw_parameters input_data s =
     snd (bind (on_pool (pipeline_start x p))
            (\<lambda>_. bind (on_pool (data_to_send x))
              (\<lambda>_ s2. bind (exec_try x script p code
                             (exec_cmdlet x p raw_parameters input_data (pool s2)))
                        (\<lambda>_. send_data x) s2)) s)"

section \<open>Observing the connection\<close>

text \<open>
  Every byte string the server sends is a data packet or a guid packet with one of the four
  ack tags. \<open>acks_of\<close> keeps the packets that are not data packets (a data packet starts
  with \<^verbatim>\<open><Data\<close> and a blank), in the order they were sent.
\<close>

definition is_data_packet :: "bytes \<Rightarrow> bool" where
  "is_data_packet pkt = (take 6 pkt = ''<Data '')"

definition acks_of :: "bytes list \<Rightarrow> bytes list" where
  "acks_of ws = filter (\<lambda>pkt. \<not> is_data_packet pkt) ws"

text \<open>The ack the specification expects for a packet with tag \<open>tg\<close> addressed to \<open>g\<close>
  (\<open>None\<close> for the zero GUID), given what the code does for runspace-scoped
  \<^verbatim>\<open>Command\<close> and \<^verbatim>\<open>Signal\<close> packets.\<close>

definition emitted_acks :: "string \<Rightarrow> uuid option \<Rightarrow> bytes list" where
  "emitted_acks tg g =
     (if tg = ''Close'' then [ps_guid_packet ''CloseAck'' g]
      else if tg = ''Data'' then [ps_guid_packet ''DataAck'' g]
      else if tg = ''Command''
        then (case g of None \<Rightarrow> [] | Some p \<Rightarrow> [ps_guid_packet ''CommandAck'' g])
      else if tg = ''Signal''
        then (case g of None \<Rightarrow> [] | Some p \<Rightarrow> [ps_guid_packet ''SignalAck'' g])
      else [])"

text \<open>The result and the bytes sent of a run that returned.\<close>

definition result_of :: "('r \<times> 's) option \<Rightarrow> 'r option" where
  "result_of out = map_option fst out"

definition projr_opt :: "'e + 'a \<Rightarrow> 'a option" where
  "projr_opt r = (case r of Inl e \<Rightarrow> None | Inr v \<Rightarrow> Some v)"

definition wire_of :: "('r \<times> ('rp, 'm) io_scheme) option \<Rightarrow> bytes list option" where
  "wire_of out = map_option (wire \<circ> snd) out"

definition processed_of :: "('r \<times> ('rp, 'v) transport) option \<Rightarrow> bytes list option" where
  "processed_of out = map_option (processed \<circ> snd) out"

text \<open>The states a waiting thread sees at its successive wake-ups.\<close>

fun states_of :: "('s \<Rightarrow> 's) list \<Rightarrow> 's \<Rightarrow> 's list" where
  "states_of [] s = [s]"
| "states_of (f # fs) s = s # states_of fs (f s)"

text \<open>The codec has at most \<open>n\<close> more events to hand out from state \<open>rp\<close>.\<close>

fun drains_within :: "('rp, 'v) ext \<Rightarrow> nat \<Rightarrow> 'rp \<Rightarrow> bool" where
  "drains_within x 0 rp =
     (case next_event x rp of (Inr (Some ev), rp') \<Rightarrow> False | (Inr None, rp') \<Rightarrow> True
      | (Inl e, rp') \<Rightarrow> True)"
| "drains_within x (Suc n) rp =
     (case next_event x rp of (Inr (Some ev), rp') \<Rightarrow> drains_within x n rp'
      | (Inr None, rp') \<Rightarrow> True | (Inl e, rp') \<Rightarrow> True)"

text \<open>The packets of a byte stream: its line-feed terminated lines, without the
  line-feeds; \<open>cur\<close> holds the bytes of the line being read.\<close>

fun split_packets :: "bytes \<Rightarrow> bytes \<Rightarrow> bytes list" where
  "split_packets cur [] = []"
| "split_packets cur (c # cs) =
     (if c = LF then cur # split_packets [] cs else split_packets (cur @ [c]) cs)"

section \<open>A recording codec and sample packets\<close>

text \<open>
  To run the model on concrete packets the libraries need concrete behaviour. \<open>fx\<close> is a
  small stand-in: a codec that records every call made to it, hands out the events and the
  pending output it was loaded with, and tracks the states the calls lead to; an XML
  parser, a GUID parser and a base64 decoder that know the sample inputs below and raise
  on everything else, as the real ones do on malformed input. The general theorems do not
  depend on it.
\<close>

datatype codec_call =
  Call_receive_data PSRPPayload
  | Call_pool_close
  | Call_set_broken ErrorRecord
  | Call_ServerPipeline uuid
  | Call_start uuid
  | Call_complete uuid
  | Call_stop uuid
  | Call_begin_stop uuid
  | Call_close uuid
  | Call_write_error uuid NETException ErrorCategoryInfo string
  | Call_change_state uuid PSInvocationState ErrorRecord

record fx_pool =
  fx_state :: RunspacePoolState
  fx_pipeline_state :: "uuid \<Rightarrow> PSInvocationState"
  fx_events :: "string PSRPEvent list"
  fx_outbox :: "PSRPPayload list"
  fx_calls :: "codec_call list"

definition fx_call :: "codec_call \<Rightarrow> fx_pool \<Rightarrow> fx_pool" where
  "fx_call c rp = rp\<lparr>fx_calls := fx_calls rp @ [c]\<rparr>"

definition fx_set_pipeline :: "uuid \<Rightarrow> PSInvocationState \<Rightarrow> fx_pool \<Rightarrow> fx_pool" where
  "fx_set_pipeline p st rp = rp\<lparr>fx_pipeline_state := (fx_pipeline_state rp)(p := st)\<rparr>"

definition fx_queue :: "bytes \<Rightarrow> uuid option \<Rightarrow> fx_pool \<Rightarrow> fx_pool" where
  "fx_queue d p rp =
     rp\<lparr>fx_outbox := fx_outbox rp
          @ [\<lparr>payload_data = d, payload_stream_type = StreamDefault, payload_pipeline_id = p\<rparr>]\<rparr>"

definition zero_text :: string where
  "zero_text = ''00000000-0000-0000-0000-000000000000''"

definition g1 :: uuid where
  "g1 = 0x0123456789abcdef0123456789abcdef"

definition g1_text :: string where
  "g1_text = ''01234567-89ab-cdef-0123-456789abcdef''"

text \<open>Sample packets, as they stand on the wire without the line-feed, and what
  \<^verbatim>\<open>ElementTree.fromstring\<close> makes of them.\<close>

definition signal_zero :: bytes where
  "signal_zero = ''<Signal PSGuid='00000000-0000-0000-0000-000000000000' />''"

definition signal_g1 :: bytes where
  "signal_g1 = ''<Signal PSGuid='01234567-89ab-cdef-0123-456789abcdef' />''"

definition command_g1 :: bytes where
  "command_g1 = ''<Command PSGuid='01234567-89ab-cdef-0123-456789abcdef' />''"

definition close_g1 :: bytes where
  "close_g1 = ''<Close PSGuid='01234567-89ab-cdef-0123-456789abcdef' />''"

definition data_g1 :: bytes where
  "data_g1 = ''<Data Stream='Default' PSGuid='01234567-89ab-cdef-0123-456789abcdef'>aGk=</Data>''"

definition data_g1_bad_base64 :: bytes where
  "data_g1_bad_base64 =
     ''<Data Stream='Default' PSGuid='01234567-89ab-cdef-0123-456789abcdef'>aGk</Data>''"

definition foo_g1 :: bytes where
  "foo_g1 = ''<Foo PSGuid='01234567-89ab-cdef-0123-456789abcdef'>aGk</Foo>''"

definition close_no_guid :: bytes where
  "close_no_guid = ''<Close />''"

definition close_bad_guid :: bytes where
  "close_bad_guid = ''<Close PSGuid='xyz' />''"

definition fx_elements :: "(bytes \<times> Element) list" where
  "fx_elements =
     [(signal_zero,
       \<lparr>el_tag = ''Signal'', el_attrib = [''PSGuid'' \<mapsto> zero_text], el_text = None\<rparr>),
      (signal_g1,
       \<lparr>el_tag = ''Signal'', el_attrib = [''PSGuid'' \<mapsto> g1_text], el_text = None\<rparr>),
      (command_g1,
       \<lparr>el_tag = ''Command'', el_attrib = [''PSGuid'' \<mapsto> g1_text], el_text = None\<rparr>),
      (close_g1,
       \<lparr>el_tag = ''Close'', el_attrib = [''PSGuid'' \<mapsto> g1_text], el_text = None\<rparr>),
      (data_g1,
       \<lparr>el_tag = ''Data'', el_attrib = [''Stream'' \<mapsto> ''Default'', ''PSGuid'' \<mapsto> g1_text],
        el_text = Some ''aGk=''\<rparr>),
      (data_g1_bad_base64,
       \<lparr>el_tag = ''Data'', el_attrib = [''Stream'' \<mapsto> ''Default'', ''PSGuid'' \<mapsto> g1_text],
        el_text = Some ''aGk''\<rparr>),
      (foo_g1,
       \<lparr>el_tag = ''Foo'', el_attrib = [''PSGuid'' \<mapsto> g1_text], el_text = Some ''aGk''\<rparr>),
      (close_no_guid,
       \<lparr>el_tag = ''Close'', el_attrib = Map.empty, el_text = None\<rparr>),
      (close_bad_guid,
       \<lparr>el_tag = ''Close'', el_attrib = [''PSGuid'' \<mapsto> ''xyz''], el_text = None\<rparr>)]"

definition fx :: "(fx_pool, string) ext" where
  "fx =
     \<lparr>fromstring = (\<lambda>raw. case map_of fx_elements raw of
                        None \<Rightarrow> Inl (Exn ParseError ''syntax error'')
                      | Some el \<Rightarrow> Inr el),
      UUID = (\<lambda>s. if s = zero_text then Inr 0
                   else if s = g1_text then Inr g1
                   else Inl (Exn ValueError ''badly formed hexadecimal UUID string'')),
      b64decode = (\<lambda>s. if s = ''aGk='' then Inr ''hi''
                        else Inl (Exn BinasciiError ''Incorrect padding'')),
      format_exc = (\<lambda>e. ''Traceback (most recent call last)''),
      dedent = (\<lambda>s. s),
      receive_data = (\<lambda>p rp. (Inr (), fx_call (Call_receive_data p) rp)),
      next_event = (\<lambda>rp. case fx_events rp of
                        [] \<Rightarrow> (Inr None, rp)
                      | ev # evs \<Rightarrow> (Inr (Some ev), rp\<lparr>fx_events := evs\<rparr>)),
      data_to_send = (\<lambda>rp. case fx_outbox rp of
                        [] \<Rightarrow> (Inr None, rp)
                      | d # ds \<Rightarrow> (Inr (Some d), rp\<lparr>fx_outbox := ds\<rparr>)),
      pool_close = (\<lambda>rp. (Inr (), fx_call Call_pool_close (rp\<lparr>fx_state := Closed\<rparr>))),
      set_broken = (\<lambda>err rp. (Inr (),
                      fx_queue ''broken'' None
                        (fx_call (Call_set_broken err) (rp\<lparr>fx_state := Broken\<rparr>)))),
      pool_state = fx_state,
      runspace_pool_id = (\<lambda>rp. 0),
      pool_host = (\<lambda>rp. None),
      ServerPipeline = (\<lambda>p rp. (Inr (),
                      fx_call (Call_ServerPipeline p) (fx_set_pipeline p NotStarted rp))),
      pipeline_state = (\<lambda>p rp. fx_pipeline_state rp p),
      pipeline_host = (\<lambda>p rp. None),
      pipeline_start = (\<lambda>p rp. (Inr (), fx_call (Call_start p) (fx_set_pipeline p Running rp))),
      pipeline_complete = (\<lambda>p rp. (Inr (),
                      fx_queue ''completed'' (Some p)
                        (fx_call (Call_complete p) (fx_set_pipeline p Completed rp)))),
      pipeline_stop = (\<lambda>p rp. (Inr (),
                      fx_queue ''stopped'' (Some p)
                        (fx_call (Call_stop p) (fx_set_pipeline p Stopped rp)))),
      pipeline_begin_stop = (\<lambda>p rp. (Inr (),
                      fx_call (Call_begin_stop p) (fx_set_pipeline p Stopping rp))),
      pipeline_close = (\<lambda>p rp. (Inr (), fx_call (Call_close p) rp)),
      pipeline_write_error = (\<lambda>p ex ci fq rp. (Inr (),
                      fx_queue ''error'' (Some p) (fx_call (Call_write_error p ex ci fq) rp))),
      pipeline_change_state = (\<lambda>p st err rp. (Inr (),
                      fx_queue ''state'' (Some p)
                        (fx_call (Call_change_state p st err) (fx_set_pipeline p st rp))))\<rparr>"

text \<open>An opened pool with nothing pending, and a transport around it with no pipeline.\<close>

definition fx_pool0 :: fx_pool where
  "fx_pool0 =
     \<lparr>fx_state = Opened, fx_pipeline_state = (\<lambda>p. NotStarted), fx_events = [],
      fx_outbox = [], fx_calls = []\<rparr>"

definition fx_transport :: "fx_pool \<Rightarrow> (fx_pool, string) transport" where
  "fx_transport rp =
     \<lparr>pool = rp, wire = [], pipelines = Map.empty, rs_event_queue = [],
      rs_host_result = Map.empty, rs_finished = False, processed = []\<rparr>"

text \<open>The same with the pipeline \<open>g1\<close> running, its worker idle, and one payload of
  \<open>g1\<close> pending in the codec.\<close>

definition fx_pending :: PSRPPayload where
  "fx_pending =
     \<lparr>payload_data = ''out'', payload_stream_type = StreamDefault,
      payload_pipeline_id = Some g1\<rparr>"

definition fx_pool_running :: fx_pool where
  "fx_pool_running =
     fx_pool0\<lparr>fx_pipeline_state := (fx_pipeline_state fx_pool0)(g1 := Running),
              fx_outbox := [fx_pending]\<rparr>"

definition fx_transport_running :: "(fx_pool, string) transport" where
  "fx_transport_running =
     (fx_transport fx_pool_running)\<lparr>pipelines := [g1 \<mapsto> new_PipelineThread]\<rparr>"

text \<open>The same again, with one input event for \<open>g1\<close> waiting in the codec.\<close>

definition fx_transport_input :: "(fx_pool, string) transport" where
  "fx_transport_input =
     (fx_transport (fx_pool_running\<lparr>fx_events := [PipelineInputEvent ''21'']\<rparr>))
       \<lparr>pipelines := [g1 \<mapsto> new_PipelineThread]\<rparr>"

text \<open>A pool that is already closed.\<close>

definition fx_pool_closed :: fx_pool where
  "fx_pool_closed = fx_pool0\<lparr>fx_state := Closed\<rparr>"


text \<open>
  A script thread of \<open>g1\<close> about to wait for the answer to host call 7: the request is
  pending in the codec, no answer is stored. The other threads may notify without a
  change, store a result or an error for call 7, or begin to stop the pipeline.
\<close>

definition fx_world :: "(fx_pool, string) script_world" where
  "fx_world = \<lparr>pool = fx_pool_running, wire = [], bound_result = Map.empty\<rparr>"

definition fx_notify :: "(fx_pool, string) script_world \<Rightarrow> (fx_pool, string) script_world" where
  "fx_notify s = s"

definition fx_deliver :: "(fx_pool, string) script_world \<Rightarrow> (fx_pool, string) script_world" where
  "fx_deliver s = s\<lparr>bound_result := (bound_result s)(7 \<mapsto> HostResult (Some ''secret''))\<rparr>"

definition fx_denied :: ErrorRecord where
  "fx_denied =
     \<lparr>Exception = \<lparr>Message = ''denied'', StackTrace = []\<rparr>,
      CategoryInfo = \<lparr>Category = NotSpecified, Activity = None, Reason = None,
                      TargetName = None, TargetType = None\<rparr>,
      FullyQualifiedErrorId = None\<rparr>"

definition fx_deliver_error ::
  "(fx_pool, string) script_world \<Rightarrow> (fx_pool, string) script_world" where
  "fx_deliver_error s = s\<lparr>bound_result := (bound_result s)(7 \<mapsto> HostError fx_denied)\<rparr>"

definition fx_begin_stop ::
  "(fx_pool, string) script_world \<Rightarrow> (fx_pool, string) script_world" where
  "fx_begin_stop s = s\<lparr>pool := fx_set_pipeline g1 Stopping (pool s)\<rparr>"

definition stored_of ::
  "nat \<Rightarrow> ('r \<times> ('rp, 'v) script_world) option \<Rightarrow> 'v host_value option option" where
  "stored_of c out = map_option (\<lambda>(r, s). bound_result s c) out"

text \<open>A script that raises \<^verbatim>\<open>Exception("boom")\<close> at once, and the state it starts in.\<close>

definition fx_script_raises ::
  "string \<Rightarrow> (string, unit) PSCmdlet \<Rightarrow> fx_pool io \<Rightarrow> script_outcome \<times> fx_pool io" where
  "fx_script_raises code cmdlet s = (ScriptRaised (Exn PlainException ''boom''), s)"

definition fx_io :: "fx_pool io" where
  "fx_io = \<lparr>pool = fx_pool0, wire = []\<rparr>"

definition calls_of :: "fx_pool io \<Rightarrow> codec_call list" where
  "calls_of s = fx_calls (pool s)"

section \<open>Properties of the packet codec\<close>

lemma hex_pad_digits:
  "hex_pad w n = map (\<lambda>k. hexdigit_lower ((n div 16 ^ (w - 1 - k)) mod 16)) [0 ..< w]"
proof (induction w arbitrary: n)
  case 0
  show ?case by simp
next
  case (Suc w)
  have "map (\<lambda>k. hexdigit_lower ((n div 16 div 16 ^ (w - 1 - k)) mod 16)) [0 ..< w]
      = map (\<lambda>k. hexdigit_lower ((n div 16 ^ (Suc w - 1 - k)) mod 16)) [0 ..< w]"
  proof (rule map_cong [OF refl])
    fix k assume "k \<in> set [0 ..< w]"
    then have k: "k < w" by simp
    then have "Suc w - 1 - k = Suc (w - 1 - k)" by arith
    then show "hexdigit_lower ((n div 16 div 16 ^ (w - 1 - k)) mod 16)
             = hexdigit_lower ((n div 16 ^ (Suc w - 1 - k)) mod 16)"
      by (simp add: div_mult2_eq)
  qed
  then show ?case
    by (simp add: Suc.IH)
qed

lemma hexdigit_lower_in: "d < 16 \<Longrightarrow> hexdigit_lower d \<in> set ''0123456789abcdef''"
  unfolding hexdigit_lower_def by (rule nth_mem) simp

lemma lower_char_hexdigit: "d < 16 \<Longrightarrow> lower_char (hexdigit_lower d) = hexdigit_lower d"
proof -
  assume "d < 16"
  then have "hexdigit_lower d \<in> set ''0123456789abcdef''" by (rule hexdigit_lower_in)
  then show ?thesis
    by (auto simp: lower_char_def)
qed

lemma lower_guid_digits: "lower (guid_digits u i n) = guid_digits u i n"
  by (simp add: lower_def guid_digits_def lower_char_hexdigit)

lemma lower_append: "lower (xs @ ys) = lower xs @ lower ys"
  by (simp add: lower_def)

lemma take_drop_upt_map:
  "i + n \<le> w \<Longrightarrow> take n (drop i (map f [0 ..< w])) = map f [i ..< i + n]"
  by (simp add: take_map drop_map take_upt drop_upt)

lemma lower_hyphen_Cons: "lower (CHR ''-'' # xs) = CHR ''-'' # lower xs"
  by (simp add: lower_def lower_char_def)

lemma uuid_str_groups: "uuid_str u = guid_lowercase_hyphenated u"
proof -
  let ?f = "\<lambda>k. hexdigit_lower ((unat u div 16 ^ (31 - k)) mod 16)"
  have h: "hex_pad 32 (unat u) = map ?f [0 ..< 32]"
    by (simp add: hex_pad_digits)
  have t0: "take 8 (map ?f [0 ..< 32]) = map ?f [0 ..< 0 + 8]"
    using take_drop_upt_map [of 0 8 32 ?f] by simp
  have t1: "take 4 (drop 8 (map ?f [0 ..< 32])) = map ?f [8 ..< 8 + 4]"
    by (rule take_drop_upt_map) simp
  have t2: "take 4 (drop 12 (map ?f [0 ..< 32])) = map ?f [12 ..< 12 + 4]"
    by (rule take_drop_upt_map) simp
  have t3: "take 4 (drop 16 (map ?f [0 ..< 32])) = map ?f [16 ..< 16 + 4]"
    by (rule take_drop_upt_map) simp
  have t4: "drop 20 (map ?f [0 ..< 32]) = map ?f [20 ..< 20 + 12]"
    using take_drop_upt_map [of 20 12 32 ?f] by simp
  show ?thesis
    unfolding uuid_str_def Let_def h t0 t1 t2 t3 t4
    by (simp only: guid_lowercase_hyphenated_def guid_digits_def)
qed

lemma lower_uuid_str: "lower (uuid_str u) = guid_lowercase_hyphenated u"
proof -
  have "lower (guid_lowercase_hyphenated u) = guid_lowercase_hyphenated u"
    by (simp add: guid_lowercase_hyphenated_def lower_append lower_guid_digits lower_hyphen_Cons)
  then show ?thesis by (simp add: uuid_str_groups)
qed

lemma b64char_not_LF: "b64char n \<noteq> LF"
proof -
  have "b64char n \<in> set b64_alphabet"
    unfolding b64char_def by (rule nth_mem) (simp add: b64_alphabet_def)
  then show ?thesis
    by (auto simp: b64_alphabet_def LF_def)
qed

lemma LF_not_b64char: "LF \<noteq> b64char n"
  using b64char_not_LF [of n] by (rule not_sym)

lemma LF_not_pad: "LF \<noteq> CHR ''=''"
  by (simp add: LF_def)

lemma b64encode_no_LF: "LF \<notin> set (b64encode data)"
proof (induction data rule: b64encode.induct)
  case 1
  show ?case by simp
next
  case (2 a)
  show ?case by (simp add: Let_def LF_not_b64char LF_not_pad)
next
  case (3 a b)
  show ?case by (simp add: Let_def LF_not_b64char LF_not_pad)
next
  case (4 a b c rest)
  then show ?case by (simp add: Let_def LF_not_b64char)
qed

lemma guid_digits_no_LF: "LF \<notin> set (guid_digits u i n)"
proof -
  have "LF \<noteq> hexdigit_lower d" if "d < 16" for d
  proof -
    from that have "hexdigit_lower d \<in> set ''0123456789abcdef''" by (rule hexdigit_lower_in)
    then show ?thesis by (auto simp: LF_def)
  qed
  then have "LF \<noteq> hexdigit_lower (m mod 16)" for m
    by simp
  then show ?thesis
    by (auto simp: guid_digits_def)
qed

lemma guid_no_LF: "LF \<notin> set (guid_lowercase_hyphenated u)"
  using guid_digits_no_LF by (auto simp: guid_lowercase_hyphenated_def LF_def)

lemma ps_data_packet_eq:
  "ps_data_packet payload st g =
     ''<Data Stream='' @ [QUOTE]
     @ (case st of StreamDefault \<Rightarrow> ''Default'' | StreamPromptResponse \<Rightarrow> ''PromptResponse'')
     @ [QUOTE] @ '' PSGuid='' @ [QUOTE] @ guid_lowercase_hyphenated (guid_or_zero g) @ [QUOTE]
     @ ''>'' @ b64encode payload @ ''</Data>'' @ [LF]"
  by (cases st) (simp_all add: ps_data_packet_def lower_uuid_str QUOTE_def LF_def)

lemma ps_guid_packet_eq:
  "ps_guid_packet tag g =
     ''<'' @ tag @ '' PSGuid='' @ [QUOTE] @ guid_lowercase_hyphenated (guid_or_zero g)
     @ [QUOTE] @ '' />'' @ [LF]"
  by (simp add: ps_guid_packet_def lower_uuid_str QUOTE_def LF_def)

lemma guid_zero_text: "guid_lowercase_hyphenated 0 = ''00000000-0000-0000-0000-000000000000''"
  by (simp add: guid_lowercase_hyphenated_def guid_digits_def hexdigit_lower_def upt_rec)

lemma count_LF_data_packet: "count_list (ps_data_packet payload st g) LF = 1"
proof -
  have "count_list (b64encode payload) LF = 0"
    using b64encode_no_LF by (simp add: count_list_0_iff)
  moreover have "count_list (guid_lowercase_hyphenated (guid_or_zero g)) LF = 0"
    using guid_no_LF by (simp add: count_list_0_iff)
  ultimately show ?thesis
    by (cases st) (simp_all add: ps_data_packet_eq QUOTE_def, simp_all add: LF_def)
qed

lemma count_LF_guid_packet: "count_list (ps_guid_packet tag g) LF = 1 + count_list tag LF"
proof -
  have "count_list (guid_lowercase_hyphenated (guid_or_zero g)) LF = 0"
    using guid_no_LF by (simp add: count_list_0_iff)
  then show ?thesis
    by (simp add: ps_guid_packet_eq QUOTE_def) (simp add: LF_def)
qed

text \<open>
  C2. For every payload, stream type and optional GUID, the data-packet encoder returns
  exactly \<^verbatim>\<open><Data Stream='Default'|'PromptResponse' PSGuid='g'>base64(payload)</Data>\<close>
  followed by one line-feed, and the guid-packet encoder returns exactly
  \<^verbatim>\<open><Tag PSGuid='g' />\<close> followed by one line-feed, where \<open>g\<close> is the 8-4-4-4-12
  lower-case hyphenated rendering of the GUID; a missing GUID is rendered as the all-zero
  GUID. The base64 encoding of the payload is the body of the data packet, and the
  terminating line-feed is the only line-feed of the packet (for a guid packet: the only
  one besides those of the tag itself, of which the tags in use have none).
\<close>

theorem packet_encoders_exact:
  "ps_data_packet payload st g =
     ''<Data Stream='' @ [QUOTE]
     @ (case st of StreamDefault \<Rightarrow> ''Default'' | StreamPromptResponse \<Rightarrow> ''PromptResponse'')
     @ [QUOTE] @ '' PSGuid='' @ [QUOTE] @ guid_lowercase_hyphenated (guid_or_zero g) @ [QUOTE]
     @ ''>'' @ b64encode payload @ ''</Data>'' @ [LF]
   \<and> ps_guid_packet tag g =
     ''<'' @ tag @ '' PSGuid='' @ [QUOTE] @ guid_lowercase_hyphenated (guid_or_zero g)
     @ [QUOTE] @ '' />'' @ [LF]
   \<and> guid_lowercase_hyphenated (guid_or_zero None) = ''00000000-0000-0000-0000-000000000000''
   \<and> count_list (ps_data_packet payload st g) LF = 1
   \<and> count_list (ps_guid_packet tag g) LF = 1 + count_list tag LF"
  using ps_data_packet_eq [of payload st g] ps_guid_packet_eq [of tag g]
    count_LF_data_packet [of payload st g] count_LF_guid_packet [of tag g] guid_zero_text
  by (simp add: guid_or_zero_def)

theorem packet_encoders_exact_witness:
  "ps_data_packet ''hi'' StreamPromptResponse (Some 0x0123456789abcdef0123456789abcdef) =
     ''<Data Stream='' @ [QUOTE] @ ''PromptResponse'' @ [QUOTE] @ '' PSGuid='' @ [QUOTE]
     @ ''01234567-89ab-cdef-0123-456789abcdef'' @ [QUOTE] @ ''>aGk=</Data>'' @ [LF]
   \<and> ps_guid_packet ''CloseAck'' None =
     ''<CloseAck PSGuid='' @ [QUOTE] @ ''00000000-0000-0000-0000-000000000000'' @ [QUOTE]
     @ '' />'' @ [LF]"
  using packet_encoders_exact [of "''hi''" StreamPromptResponse
      "Some 0x0123456789abcdef0123456789abcdef" "''CloseAck''"]
    packet_encoders_exact [of "''hi''" StreamPromptResponse None "''CloseAck''"]
  by (simp add: guid_or_zero_def guid_lowercase_hyphenated_def guid_digits_def
      hexdigit_lower_def b64char_def b64_alphabet_def upt_rec)

section \<open>Properties of the pipe-name deriver\<close>

declare str_nat.simps [simp del]

lemma of_char_char_of_int: "(of_char (char_of (x::int)) :: nat) = nat (x mod 256)"
proof -
  have "(of_char (char_of x) :: int) = x mod 256" by (simp add: of_char_of)
  moreover have "(of_char (char_of x) :: int) = int (of_char (char_of x) :: nat)"
    by (simp add: of_char_def)
  ultimately show ?thesis by simp
qed

lemma byte_split: "m mod 256 = 16 * (m div 16 mod 16) + m mod 16" for m :: int
  using zmod_zmult2_eq [of 16 m 16] by simp

lemma byte_hi: "nat (m mod 256) div 16 = nat ((m div 16) mod 16)" for m :: int
proof -
  have "(m mod 256) div 16 = (m div 16) mod 16"
    unfolding byte_split by simp
  moreover have "nat (m mod 256) div 16 = nat ((m mod 256) div 16)"
    by (simp add: nat_div_distrib)
  ultimately show ?thesis by simp
qed

lemma byte_lo: "nat (m mod 256) mod 16 = nat (m mod 16)" for m :: int
proof -
  have "(m mod 256) mod 16 = m mod 16"
    unfolding byte_split by simp
  moreover have "nat (m mod 256) mod 16 = nat ((m mod 256) mod 16)"
    by (simp add: nat_mod_distrib)
  ultimately show ?thesis by simp
qed

text \<open>Packing big-endian and then hex-encoding each byte gives the sixteen hexadecimal
  digits of the number.\<close>

lemma b16encode_pack:
  fixes n :: int
  assumes "0 \<le> n"
  shows "b16encode (map (\<lambda>i. char_of ((n div 256 ^ (7 - i)) mod 256)) [0 ..< 8])
       = spec_hex16_upper n"
  using assms
  by (simp add: b16encode_def spec_hex16_upper_def upt_rec of_char_char_of_int byte_hi byte_lo
      zdiv_zmult2_eq [symmetric])

lemma start_time_ft_eq:
  "start_time_ft td = 116444736000000000 + 10 * total_microseconds td"
  by (simp add: start_time_ft_def total_microseconds_def)

lemma posix_join_relative:
  "take 1 b \<noteq> ''/'' \<Longrightarrow>
   posix_join a b = (if a = [] \<or> last a = CHR ''/'' then a else a @ ''/'') @ b"
  by (simp add: posix_join_def)

lemma get_pipe_name_join:
  assumes "has_psutil env" and "os_name env \<noteq> ''nt''"
    and "0 \<le> start_time_ft (create_td env)" and "start_time_ft (create_td env) < 2 ^ 64"
  shows "get_pipe_name env =
      Inr (posix_join (case environ_TMPDIR env of None \<Rightarrow> ''/tmp'' | Some d \<Rightarrow> d)
        (''CoreFxPipe_PSHost.'' @ spec_start_time (start_time_ft (create_td env)) @ ''.''
         @ str_nat (pid env) @ ''.None.'' @ process_name env))"
proof -
  let ?ft = "start_time_ft (create_td env)"
  have pack: "pack_Q_be ?ft
      = Inr (map (\<lambda>i. char_of ((?ft div 256 ^ (7 - i)) mod 256)) [0 ..< 8])"
    using assms(3,4) by (simp add: pack_Q_be_def)
  have st: "take 8 (drop 1 (lstrip0 (b16encode
        (map (\<lambda>i. char_of ((?ft div 256 ^ (7 - i)) mod 256)) [0 ..< 8])))) = spec_start_time ?ft"
    using assms(3) by (simp only: b16encode_pack lstrip0_def spec_start_time_def)
  show ?thesis
    unfolding get_pipe_name_def Let_def pack sum.case st using assms(1,2) by simp
qed

lemma fixture_start_time: "spec_start_time 133444736000000000 = ''DA1747C6''"
  by (simp add: spec_start_time_def spec_hex16_upper_def hexdigit_upper_def upt_rec)

lemma fixture_pid: "str_nat 1234 = ''1234''"
  by (simp add: str_nat.simps)

text \<open>A create-time before the year 1601 has a negative FILETIME, which
  \<^verbatim>\<open>struct.pack\<close> refuses.\<close>

lemma get_pipe_name_before_1601:
  "get_pipe_name (fixture_env\<lparr>create_td := \<lparr>days = - 140000, seconds = 0, microseconds = 0\<rparr>\<rparr>)
   = Inl (Exn StructError ''argument out of range'')"
  by (simp add: get_pipe_name_def fixture_env_def start_time_ft_def pack_Q_be_def)

text \<open>
  C10 (as amended). On POSIX, whenever the FILETIME value
  \<open>116444736000000000 + 10 * microseconds since the epoch\<close> of the create-time fits an
  unsigned 64-bit integer (every create-time from the epoch to the end of the calendar
  does), the deriver returns \<^verbatim>\<open>os.path.join(dir, file)\<close> with \<open>dir\<close> the value of
  \<^verbatim>\<open>TMPDIR\<close> when it is set (even to the empty string) and \<^verbatim>\<open>/tmp\<close> otherwise, and
  \<open>file\<close> = \<^verbatim>\<open>CoreFxPipe_PSHost.{start_time}.{pid}.None.{process-name}\<close>: a single
  \<^verbatim>\<open>/\<close> is put between the two unless \<open>dir\<close> is empty or already ends in \<^verbatim>\<open>/\<close>.
  \<open>start_time\<close> is the FILETIME as 16 upper-case hexadecimal digits, leading zeros
  stripped, characters 1 to 8 of the remainder. The result is a function of these inputs.
\<close>

theorem get_pipe_name_posix:
  assumes "has_psutil env" and "os_name env \<noteq> ''nt''"
    and "0 \<le> start_time_ft (create_td env)" and "start_time_ft (create_td env) < 2 ^ 64"
  shows "start_time_ft (create_td env)
           = 116444736000000000 + 10 * total_microseconds (create_td env)
       \<and> get_pipe_name env =
           Inr ((let dir = (case environ_TMPDIR env of None \<Rightarrow> ''/tmp'' | Some d \<Rightarrow> d)
                 in if dir = [] \<or> last dir = CHR ''/'' then dir else dir @ ''/'')
                @ ''CoreFxPipe_PSHost.''
                @ spec_start_time (116444736000000000 + 10 * total_microseconds (create_td env))
                @ ''.'' @ str_nat (pid env) @ ''.None.'' @ process_name env)"
  using get_pipe_name_join [OF assms]
  by (simp add: posix_join_relative start_time_ft_eq Let_def)

theorem get_pipe_name_posix_witness:
  "get_pipe_name
     \<lparr>has_psutil = True, pid = 1234, process_name = ''pwsh'',
      create_td = \<lparr>days = 19675, seconds = 80000, microseconds = 0\<rparr>,
      os_name = ''posix'', environ_TMPDIR = None\<rparr>
   = Inr ''/tmp/CoreFxPipe_PSHost.DA1747C6.1234.None.pwsh''"
proof -
  let ?env = "\<lparr>has_psutil = True, pid = 1234, process_name = ''pwsh'',
      create_td = \<lparr>days = 19675, seconds = 80000, microseconds = 0\<rparr>,
      os_name = ''posix'', environ_TMPDIR = None\<rparr>"
  have ft: "start_time_ft (create_td ?env) = 133444736000000000"
    by (simp add: start_time_ft_def)
  have us: "116444736000000000 + 10 * total_microseconds (create_td ?env) = 133444736000000000"
    by (simp add: total_microseconds_def)
  have "has_psutil ?env" and "os_name ?env \<noteq> ''nt''"
    and "0 \<le> start_time_ft (create_td ?env)" and "start_time_ft (create_td ?env) < 2 ^ 64"
    unfolding ft by simp_all
  from get_pipe_name_posix [OF this] show ?thesis
    unfolding us fixture_start_time by (simp add: fixture_pid)
qed

text \<open>
  With \<^verbatim>\<open>TMPDIR=/tmp/\<close> the result has one \<^verbatim>\<open>/\<close> after \<^verbatim>\<open>/tmp\<close>, while the format
  \<^verbatim>\<open>{TMPDIR}/CoreFxPipe_PSHost...\<close> of the specification has two.
\<close>

theorem get_pipe_name_tmpdir_counterexample:
  "get_pipe_name fixture_env = Inr ''/tmp/CoreFxPipe_PSHost.DA1747C6.1234.None.pwsh''
   \<and> get_pipe_name fixture_env \<noteq>
       Inr (''/tmp/'' @ ''/'' @ ''CoreFxPipe_PSHost.''
            @ spec_start_time (start_time_ft (create_td fixture_env))
            @ ''.'' @ str_nat 1234 @ ''.None.'' @ ''pwsh'')"
proof -
  have ft: "start_time_ft (create_td fixture_env) = 133444736000000000"
    by (simp add: start_time_ft_def fixture_env_def)
  have "has_psutil fixture_env" and "os_name fixture_env \<noteq> ''nt''"
    and "0 \<le> start_time_ft (create_td fixture_env)"
    and "start_time_ft (create_td fixture_env) < 2 ^ 64"
    unfolding ft by (simp_all add: fixture_env_def)
  from get_pipe_name_join [OF this]
  have "get_pipe_name fixture_env = Inr ''/tmp/CoreFxPipe_PSHost.DA1747C6.1234.None.pwsh''"
    unfolding ft fixture_start_time by (simp add: fixture_pid fixture_env_def posix_join_def)
  then show ?thesis
    unfolding ft fixture_start_time by (simp add: fixture_pid)
qed

section \<open>Properties of the script parameters\<close>

lemma exec_parameters_snoc:
  "exec_parameters (ps @ [(n, v)]) =
     (fst (exec_parameters ps) @ [v],
      case n of None \<Rightarrow> snd (exec_parameters ps)
      | Some k \<Rightarrow> (snd (exec_parameters ps))(k \<mapsto> v))"
  unfolding exec_parameters_def by (simp add: case_prod_beta)

lemma named_pairs_append: "named_pairs (ps @ qs) = named_pairs ps @ named_pairs qs"
  by (induction ps rule: named_pairs.induct) simp_all

text \<open>
  C9 (as amended). For every parameter list \<open>L\<close> of (name-or-null, value) pairs, the
  positional arguments built for the Cmdlet Facade are the values of all pairs of \<open>L\<close>,
  named and unnamed alike, in order, and the named-parameter map holds exactly the
  name-to-value entries of the named pairs (the last value given for a name).
\<close>

theorem exec_parameters_all_values:
  "exec_parameters ps = (map snd ps, map_of (rev (named_pairs ps)))"
proof (induction ps rule: rev_induct)
  case Nil
  show ?case by (simp add: exec_parameters_def)
next
  case (snoc p ps)
  obtain n v where p: "p = (n, v)" by (cases p)
  show ?case
    unfolding p exec_parameters_snoc snoc.IH
    by (cases n) (simp_all add: named_pairs_append fun_eq_iff)
qed

theorem exec_parameters_all_values_witness:
  "fst (exec_parameters [(None, ''a''), (Some ''Name'', ''b''), (None, ''c'')]) = [''a'', ''b'', ''c'']
   \<and> snd (exec_parameters [(None, ''a''), (Some ''Name'', ''b''), (None, ''c'')]) ''Name'' = Some ''b''"
  using exec_parameters_all_values [of "[(None, ''a''), (Some ''Name'', ''b''), (None, ''c'')]"]
  by simp

text \<open>A named pair is appended to the positional arguments too: they are not the values
  of the unnamed pairs only.\<close>

theorem exec_parameters_named_counterexample:
  "fst (exec_parameters [(None, ''a''), (Some ''Name'', ''b'')]) = [''a'', ''b'']
   \<and> fst (exec_parameters [(None, ''a''), (Some ''Name'', ''b'')])
       \<noteq> unnamed_values [(None, ''a''), (Some ''Name'', ''b'')]"
  by (simp add: exec_parameters_def)

section \<open>What the read-loop thread sends\<close>


lemma is_data_packet_data: "is_data_packet (ps_data_packet d st g)"
  by (simp add: is_data_packet_def ps_data_packet_eq)

lemma acks_of_append: "acks_of (ws @ vs) = acks_of ws @ acks_of vs"
  by (simp add: acks_of_def)

lemma acks_of_data: "acks_of [ps_data_packet d st g] = []"
  by (simp add: acks_of_def is_data_packet_data)

lemma acks_of_guid:
  "acks_of [ps_guid_packet ''CloseAck'' g] = [ps_guid_packet ''CloseAck'' g]"
  "acks_of [ps_guid_packet ''CommandAck'' g] = [ps_guid_packet ''CommandAck'' g]"
  "acks_of [ps_guid_packet ''DataAck'' g] = [ps_guid_packet ''DataAck'' g]"
  "acks_of [ps_guid_packet ''SignalAck'' g] = [ps_guid_packet ''SignalAck'' g]"
  by (simp_all add: acks_of_def is_data_packet_def ps_guid_packet_eq)

lemma send_data_acks:
  "send_data x s = (r, s') \<Longrightarrow> acks_of (wire s') = acks_of (wire s)"
  by (auto simp: send_data_def bind_def on_pool_def ret_def transport_data_def
      transport_write_def acks_of_append acks_of_data
      split: prod.splits sum.splits option.splits)

lemma pipeline_run_acks:
  "pipeline_run x q th s = (ex, th', s') \<Longrightarrow> acks_of (wire s') = acks_of (wire s)"
proof (induction x q th s arbitrary: ex th' s' rule: pipeline_run.induct)
  case (1 x th s)
  then show ?case by simp
next
  case (2 x q th s)
  then show ?case by simp
next
  case (3 x ev q th s)
  show ?case
  proof (cases "pipeline_handle_event x ev th")
    case (Inl e)
    with "3.prems" show ?thesis by simp
  next
    case (Inr th1)
    obtain r s1 where sd: "send_data x s = (r, s1)" by (cases "send_data x s")
    then have a1: "acks_of (wire s1) = acks_of (wire s)" by (rule send_data_acks)
    show ?thesis
    proof (cases r)
      case (Inl e)
      with "3.prems" Inr sd a1 show ?thesis by simp
    next
      case (Inr u)
      with "3.prems" \<open>pipeline_handle_event x ev th = Inr th1\<close> sd
      have "pipeline_run x q th1 s1 = (ex, th', s')" by simp
      from "3.IH" [OF \<open>pipeline_handle_event x ev th = Inr th1\<close> sd [symmetric] Inr this]
      show ?thesis using a1 by simp
    qed
  qed
qed

lemma pipeline_run_sentinel:
  "fst (pipeline_run x (q @ [None]) th s) \<noteq> Blocked"
proof (induction x q th s rule: pipeline_run.induct)
  case (1 x th s)
  show ?case by simp
next
  case (2 x q th s)
  show ?case by simp
next
  case (3 x ev q th s)
  then show ?case
    by (auto split: sum.splits prod.splits)
qed

lemma runspace_run_acks:
  "runspace_run x q t = (ex, t') \<Longrightarrow> acks_of (wire t') = acks_of (wire t)"
proof (induction x q t arbitrary: ex t' rule: runspace_run.induct)
  case (1 x t)
  then show ?case by auto
next
  case (2 x q t)
  then show ?case by auto
next
  case (3 x ev q t)
  define t1 where "t1 = (case ev of
      RunspacePoolHostResponseEvent ci err res \<Rightarrow>
        t\<lparr>rs_host_result := (rs_host_result t)(ci \<mapsto> host_response_value err res)\<rparr>
    | _ \<Rightarrow> t)"
  have w1: "wire t1 = wire t" by (simp add: t1_def split: PSRPEvent.splits)
  obtain r t2 where sd: "send_data x t1 = (r, t2)" by (cases "send_data x t1")
  then have a2: "acks_of (wire t2) = acks_of (wire t1)" by (rule send_data_acks)
  show ?case
  proof (cases r)
    case (Inl e)
    with "3.prems" sd a2 w1 show ?thesis by (auto simp: t1_def [symmetric] Let_def)
  next
    case (Inr u)
    with "3.prems" sd have "runspace_run x q t2 = (ex, t')"
      by (simp add: t1_def [symmetric] Let_def)
    from "3.IH" [OF t1_def sd [symmetric] Inr this] a2 w1 show ?thesis by simp
  qed
qed

lemma runspace_run_sentinel:
  "fst (runspace_run x (q @ [None]) t) \<noteq> Blocked"
proof (induction x q t rule: runspace_run.induct)
  case (1 x t)
  show ?case by simp
next
  case (2 x q t)
  show ?case by simp
next
  case (3 x ev q t)
  then show ?case
    by (auto simp: Let_def split: sum.splits prod.splits)
qed

lemma drain_events_wire:
  assumes "drain_events x g t = Some (r, t')"
  shows "wire t' = wire t"
proof -
  have "(case ((x, g), t) of
           (a, b) \<Rightarrow> (case a of (a, c) \<Rightarrow> (\<lambda>x g t out. wire (snd out) = wire t) a c) b)
          (r, t')"
  proof (rule drain_events.raw_induct [where P = "\<lambda>x g t out. wire (snd out) = wire t"])
    show "(case ((x, g), t) of (a, b) \<Rightarrow> (case a of (a, c) \<Rightarrow> drain_events a c) b)
        = Some (r, t')"
      using assms by simp
  next
    fix f :: "('a, 'b) ext \<Rightarrow> uuid option \<Rightarrow> ('a, 'b) transport
        \<Rightarrow> ((exn + unit) \<times> ('a, 'b) transport) option"
      and x g t out
    assume IH: "\<And>g t b y. f g t b = Some y \<Longrightarrow> wire (snd y) = wire b"
      and eq: "(case on_pool (next_event x) t of
          (Inl e, t1) \<Rightarrow> Some (Inl e, t1)
        | (Inr None, t1) \<Rightarrow> Some (Inr (), t1)
        | (Inr (Some ev), t1) \<Rightarrow>
            (case g of
               None \<Rightarrow> f x g (t1\<lparr>rs_event_queue := rs_event_queue t1 @ [Some ev]\<rparr>)
             | Some p \<Rightarrow>
                 (case pipelines t1 p of
                    None \<Rightarrow> Some (Inl (Exn KeyError (repr_uuid p)), t1)
                  | Some th \<Rightarrow>
                      f x g
                        (t1\<lparr>pipelines :=
                             (pipelines t1)(p \<mapsto> th\<lparr>event_queue := event_queue th @ [Some ev]\<rparr>)\<rparr>))))
          = Some out"
    obtain res t1 where np: "on_pool (next_event x) t = (res, t1)"
      by (cases "on_pool (next_event x) t")
    then have w1: "wire t1 = wire t"
      by (auto simp: on_pool_def split: prod.splits)
    from eq np show "wire (snd out) = wire t"
      using w1 by (auto split: sum.splits option.splits dest!: IH)
  qed
  then show ?thesis by simp
qed


lemma drain_events_returns:
  "drains_within x n (pool t) \<Longrightarrow> drain_events x g t \<noteq> None"
proof (induction n arbitrary: t g)
  case 0
  then show ?case
    by (subst drain_events.simps)
      (auto simp: on_pool_def split: prod.splits sum.splits option.splits)
next
  case (Suc n)
  show ?case
  proof (cases "next_event x (pool t)")
    case (Pair res rp)
    show ?thesis
    proof (cases res)
      case (Inl e)
      with Pair show ?thesis
        by (subst drain_events.simps) (simp add: on_pool_def)
    next
      case (Inr evo)
      show ?thesis
      proof (cases evo)
        case None
        with Pair Inr show ?thesis
          by (subst drain_events.simps) (simp add: on_pool_def)
      next
        case (Some ev)
        with Pair Inr Suc.prems have dw: "drains_within x n rp" by simp
        have step: "\<exists>a b. drain_events x g' t' = Some (a, b)" if "pool t' = rp" for t' g'
          using Suc.IH [of t' g'] dw that by auto
        from Pair Inr Some show ?thesis
          by (subst drain_events.simps)
            (auto simp: on_pool_def intro!: step split: option.splits)
      qed
    qed
  qed
qed

lemma PipelineThread_close_wire:
  "PipelineThread_close x p th s = (r, s') \<Longrightarrow> wire s' = wire s"
  by (auto simp: PipelineThread_close_def bind_def on_pool_def ret_def
      split: prod.splits sum.splits if_splits)

lemma PipelineThread_close_queue:
  "PipelineThread_close x p th s = (Inr th', s') \<Longrightarrow> event_queue th' = event_queue th @ [None]"
  by (auto simp: PipelineThread_close_def bind_def on_pool_def ret_def
      split: prod.splits sum.splits if_splits)

lemma PipelineThread_stop_wire:
  "PipelineThread_stop x p s = (r, s') \<Longrightarrow> wire s' = wire s"
  by (auto simp: PipelineThread_stop_def bind_def on_pool_def ret_def
      split: prod.splits sum.splits)

lemma RunspaceThread_close_acks:
  assumes "RunspaceThread_close x t = (r, t')"
  shows "acks_of (wire t') = acks_of (wire t)"
proof -
  obtain r1 t1 where pc: "on_pool (pool_close x) t = (r1, t1)"
    by (cases "on_pool (pool_close x) t")
  then have w1: "wire t1 = wire t"
    by (auto simp: on_pool_def split: prod.splits)
  obtain r2 t2 where sd: "send_data x t1 = (r2, t2)" by (cases "send_data x t1")
  then have a2: "acks_of (wire t2) = acks_of (wire t1)" by (rule send_data_acks)
  from assms pc sd w1 a2 show ?thesis
    by (auto simp: RunspaceThread_close_def bind_def split: sum.splits)
qed

lemma RunspaceThread_close_queue:
  "RunspaceThread_close x t = (Inr u, t') \<Longrightarrow> \<exists>q. rs_event_queue t' = q @ [None]"
  by (auto simp: RunspaceThread_close_def bind_def send_data_def on_pool_def ret_def
      transport_data_def transport_write_def split: prod.splits sum.splits option.splits)

lemma RunspaceThread_join_acks:
  "RunspaceThread_join x t = Some t' \<Longrightarrow> acks_of (wire t') = acks_of (wire t)"
  by (auto simp: RunspaceThread_join_def split: if_splits prod.splits thread_exit.splits
      dest: runspace_run_acks)

lemma RunspaceThread_join_returns:
  "rs_event_queue t = q @ [None] \<Longrightarrow> RunspaceThread_join x t \<noteq> None"
  using runspace_run_sentinel [of x q t]
  by (auto simp: RunspaceThread_join_def split: prod.splits thread_exit.splits)

lemma close_ack_acks:
  "close_ack g s = (r, s') \<Longrightarrow>
   r = Inr () \<and> acks_of (wire s') = acks_of (wire s) @ [ps_guid_packet ''CloseAck'' g]"
  by (auto simp: close_ack_def transport_write_def acks_of_append acks_of_guid)

lemma process_close_returns: "process_close x g t \<noteq> None"
proof (cases g)
  case None
  show ?thesis
  proof (cases "RunspaceThread_close x t")
    case (Pair r t1)
    show ?thesis
    proof (cases r)
      case (Inl e)
      with None Pair show ?thesis by (simp add: process_close_def)
    next
      case (Inr u)
      with Pair obtain q where "rs_event_queue t1 = q @ [None]"
        using RunspaceThread_close_queue by blast
      then have "RunspaceThread_join x t1 \<noteq> None" by (rule RunspaceThread_join_returns)
      with None Pair Inr show ?thesis
        by (auto simp: process_close_def)
    qed
  qed
next
  case (Some p)
  show ?thesis
  proof (cases "pipelines t p")
    case None
    with Some show ?thesis by (simp add: process_close_def)
  next
    case (Some th)
    obtain r t1 where cl: "PipelineThread_close x p th (t\<lparr>pipelines := (pipelines t)(p := None)\<rparr>) = (r, t1)"
      by (cases "PipelineThread_close x p th (t\<lparr>pipelines := (pipelines t)(p := None)\<rparr>)")
    show ?thesis
    proof (cases r)
      case (Inl e)
      with \<open>g = Some p\<close> Some cl show ?thesis by (simp add: process_close_def)
    next
      case (Inr th1)
      with cl have "event_queue th1 = event_queue th @ [None]"
        using PipelineThread_close_queue by blast
      then have "fst (pipeline_run x (event_queue th1) th1 t1) \<noteq> Blocked"
        using pipeline_run_sentinel [of x "event_queue th" th1 t1] by simp
      with \<open>g = Some p\<close> Some cl Inr show ?thesis
        by (auto simp: process_close_def split: prod.splits thread_exit.splits)
    qed
  qed
qed

lemma process_close_acks:
  assumes "process_close x g t = Some (Inr (), t')"
  shows "acks_of (wire t') = acks_of (wire t) @ [ps_guid_packet ''CloseAck'' g]"
proof (cases g)
  case None
  obtain r t1 where rc: "RunspaceThread_close x t = (r, t1)"
    by (cases "RunspaceThread_close x t")
  then have a1: "acks_of (wire t1) = acks_of (wire t)" by (rule RunspaceThread_close_acks)
  from assms None rc obtain t2 where j: "RunspaceThread_join x t1 = Some t2"
    and ca: "close_ack g t2 = (Inr (), t')"
    by (auto simp: process_close_def split: sum.splits option.splits)
  from j have a2: "acks_of (wire t2) = acks_of (wire t1)" by (rule RunspaceThread_join_acks)
  from close_ack_acks [OF ca] a1 a2 show ?thesis by simp
next
  case (Some p)
  from assms Some obtain th where th: "pipelines t p = Some th"
    by (auto simp: process_close_def split: option.splits)
  obtain r t1 where cl: "PipelineThread_close x p th (t\<lparr>pipelines := (pipelines t)(p := None)\<rparr>) = (r, t1)"
    by (cases "PipelineThread_close x p th (t\<lparr>pipelines := (pipelines t)(p := None)\<rparr>)")
  then have w1: "wire t1 = wire t"
    using PipelineThread_close_wire by fastforce
  from assms Some th cl obtain th1 where r: "r = Inr th1"
    by (cases r) (auto simp: process_close_def)
  obtain ex th2 t2 where pr: "pipeline_run x (event_queue th1) th1 t1 = (ex, th2, t2)"
    by (cases "pipeline_run x (event_queue th1) th1 t1")
  then have a2: "acks_of (wire t2) = acks_of (wire t1)" by (rule pipeline_run_acks)
  from assms Some th cl r pr have ca: "close_ack g t2 = (Inr (), t')"
    by (auto simp: process_close_def split: thread_exit.splits)
  from close_ack_acks [OF ca] a2 w1 show ?thesis by simp
qed

lemma process_command_acks:
  "process_command x g t = (Inr (), t') \<Longrightarrow>
   wire t' = wire t @ (case g of None \<Rightarrow> [] | Some p \<Rightarrow> [ps_guid_packet ''CommandAck'' g])"
  by (auto simp: process_command_def on_pool_def command_ack_def transport_write_def
      split: option.splits prod.splits sum.splits)

lemma process_signal_acks:
  "process_signal x g t = (Inr (), t') \<Longrightarrow>
   wire t' = wire t @ (case g of None \<Rightarrow> [] | Some p \<Rightarrow> [ps_guid_packet ''SignalAck'' g])"
  by (auto simp: process_signal_def bind_def signal_ack_def transport_write_def
      split: option.splits prod.splits sum.splits dest: PipelineThread_stop_wire)

lemma process_data_acks:
  assumes "process_data x body stream g t = Some (Inr (), t')"
  shows "wire t' = wire t @ [ps_guid_packet ''DataAck'' g]"
proof -
  from assms obtain d where "(case body of None \<Rightarrow> Inr []
      | Some d \<Rightarrow> if d = [] then Inr [] else b64decode x d) = Inr d"
    by (auto simp: process_data_def split: sum.splits)
  with assms obtain pl t1 t2 where rd: "on_pool (receive_data x pl) t = (Inr (), t1)"
    and dr: "drain_events x g t1 = Some (Inr (), t2)"
    and da: "data_ack g t2 = (Inr (), t')"
    by (auto simp: process_data_def Let_def split: sum.splits prod.splits option.splits)
  from rd have "wire t1 = wire t" by (auto simp: on_pool_def split: prod.splits)
  moreover from dr have "wire t2 = wire t1" by (rule drain_events_wire)
  moreover from da have "wire t' = wire t2 @ [ps_guid_packet ''DataAck'' g]"
    by (auto simp: data_ack_def transport_write_def)
  ultimately show ?thesis by simp
qed



lemma process_wellformed:
  assumes "fromstring x raw = Inr el" and "el_attrib el ''PSGuid'' = Some gt"
    and "UUID x gt = Inr u"
  shows "process x raw t =
     (if el_tag el = ''Close''
        then process_close x (if u = 0 then None else Some u) (t\<lparr>processed := processed t @ [raw]\<rparr>)
      else if el_tag el = ''Command''
        then Some (process_command x (if u = 0 then None else Some u)
                     (t\<lparr>processed := processed t @ [raw]\<rparr>))
      else if el_tag el = ''Data''
        then process_data x (el_text el)
               (case el_attrib el ''Stream'' of None \<Rightarrow> [] | Some s \<Rightarrow> s)
               (if u = 0 then None else Some u) (t\<lparr>processed := processed t @ [raw]\<rparr>)
      else if el_tag el = ''Signal''
        then Some (process_signal x (if u = 0 then None else Some u)
                     (t\<lparr>processed := processed t @ [raw]\<rparr>))
      else Some (Inr (), t\<lparr>processed := processed t @ [raw]\<rparr>))"
  unfolding process_def Let_def by (simp only: assms sum.case option.case)


lemma process_data_returns:
  assumes "\<forall>pl r rp. receive_data x pl (pool t) = (r, rp) \<longrightarrow> (\<exists>n. drains_within x n rp)"
  shows "process_data x body stream g t \<noteq> None"
proof (cases "case body of None \<Rightarrow> Inr [] | Some d \<Rightarrow> if d = [] then Inr [] else b64decode x d")
  case (Inl e)
  then show ?thesis by (simp add: process_data_def)
next
  case (Inr d)
  define pl where "pl = \<lparr>payload_data = d,
      payload_stream_type = (if stream = ''PromptResponse'' then StreamPromptResponse else StreamDefault),
      payload_pipeline_id = g\<rparr>"
  obtain r t1 where rd: "on_pool (receive_data x pl) t = (r, t1)"
    by (cases "on_pool (receive_data x pl) t")
  then have "receive_data x pl (pool t) = (r, pool t1)"
    by (auto simp: on_pool_def split: prod.splits)
  with assms obtain n where "drains_within x n (pool t1)" by blast
  then have dr: "drain_events x g t1 \<noteq> None" by (rule drain_events_returns)
  show ?thesis
  proof (cases r)
    case (Inl e)
    with Inr rd show ?thesis
      by (simp add: process_data_def Let_def pl_def [symmetric])
  next
    case r: (Inr u)
    from dr obtain r2 t2 where "drain_events x g t1 = Some (r2, t2)" by auto
    with Inr rd r show ?thesis
      by (cases r2) (simp_all add: process_data_def Let_def pl_def [symmetric])
  qed
qed


text \<open>
  C1 (as amended). For every inbound packet of kind Close, Command, Data or Signal with a
  \<^verbatim>\<open>PSGuid\<close> that the transport processes without an exception, the read-loop thread
  emits exactly one matching ack (CloseAck, CommandAck, DataAck, SignalAck) carrying the
  same PSGuid, except that no ack is emitted for a runspace-scoped (zero-guid) Command and
  none for a runspace-scoped (zero-guid) Signal. Processing a Close, Command or Signal
  packet always returns; processing a Data packet returns when the codec runs out of
  events.
\<close>

theorem process_emits_ack:
  assumes "fromstring x raw = Inr el" and "el_attrib el ''PSGuid'' = Some gt"
    and "UUID x gt = Inr u"
  shows "(el_tag el \<noteq> ''Data'' \<longrightarrow> process x raw t \<noteq> None)
       \<and> (el_tag el = ''Data''
            \<and> (\<forall>pl r rp. receive_data x pl (pool t) = (r, rp) \<longrightarrow> (\<exists>n. drains_within x n rp))
           \<longrightarrow> process x raw t \<noteq> None)
       \<and> (\<forall>t'. process x raw t = Some (Inr (), t')
            \<longrightarrow> acks_of (wire t')
                = acks_of (wire t) @ emitted_acks (el_tag el) (if u = 0 then None else Some u))"
proof -
  let ?g = "if u = 0 then None else Some u"
  let ?t = "t\<lparr>processed := processed t @ [raw]\<rparr>"
  note pw = process_wellformed [OF assms, of t]
  have w: "wire ?t = wire t" and pl: "pool ?t = pool t" by simp_all
  have returns: "process x raw t \<noteq> None" if "el_tag el \<noteq> ''Data''"
    unfolding pw using that process_close_returns [of x ?g ?t] by simp
  have returns_data: "process x raw t \<noteq> None"
    if "el_tag el = ''Data''"
      and "\<forall>pl r rp. receive_data x pl (pool t) = (r, rp) \<longrightarrow> (\<exists>n. drains_within x n rp)"
  proof -
    from that(2) have
      "\<forall>pl r rp. receive_data x pl (pool ?t) = (r, rp) \<longrightarrow> (\<exists>n. drains_within x n rp)"
      by (simp only: pl)
    then have "process_data x (el_text el)
        (case el_attrib el ''Stream'' of None \<Rightarrow> [] | Some s \<Rightarrow> s) ?g ?t \<noteq> None"
      by (rule process_data_returns)
    with that(1) show ?thesis unfolding pw by simp
  qed
  have acks: "acks_of (wire t') = acks_of (wire t) @ emitted_acks (el_tag el) ?g"
    if p: "process x raw t = Some (Inr (), t')" for t'
  proof -
    consider (close) "el_tag el = ''Close''" | (command) "el_tag el = ''Command''"
      | (data) "el_tag el = ''Data''" | (signal) "el_tag el = ''Signal''"
      | (other) "el_tag el \<noteq> ''Close''" "el_tag el \<noteq> ''Command''"
          "el_tag el \<noteq> ''Data''" "el_tag el \<noteq> ''Signal''"
      by blast
    then show ?thesis
    proof cases
      case close
      with p have "process_close x ?g ?t = Some (Inr (), t')"
        unfolding pw by simp
      from process_close_acks [OF this] close show ?thesis
        by (simp add: emitted_acks_def)
    next
      case command
      with p have "process_command x ?g ?t = (Inr (), t')"
        unfolding pw by simp
      from process_command_acks [OF this] command show ?thesis
        by (cases ?g) (simp_all add: emitted_acks_def acks_of_append acks_of_guid)
    next
      case data
      with p have "process_data x (el_text el)
          (case el_attrib el ''Stream'' of None \<Rightarrow> [] | Some s \<Rightarrow> s) ?g ?t = Some (Inr (), t')"
        unfolding pw by simp
      from process_data_acks [OF this] data show ?thesis
        by (simp add: emitted_acks_def acks_of_append acks_of_guid)
    next
      case signal
      with p have "process_signal x ?g ?t = (Inr (), t')"
        unfolding pw by simp
      from process_signal_acks [OF this] signal show ?thesis
        by (cases ?g) (simp_all add: emitted_acks_def acks_of_append acks_of_guid)
    next
      case other
      with p have "t' = ?t" unfolding pw by simp
      with other show ?thesis by (simp add: emitted_acks_def)
    qed
  qed
  from returns returns_data acks show ?thesis by blast
qed


subsection \<open>Running the model on the sample packets\<close>

lemmas fx_eval = fx_def fx_elements_def fx_transport_def fx_pool0_def fx_transport_running_def
  fx_transport_input_def fx_pool_closed_def
  fx_pool_running_def fx_pending_def zero_text_def g1_text_def g1_def fx_call_def
  fx_set_pipeline_def fx_queue_def new_PipelineThread_def
  signal_zero_def signal_g1_def command_g1_def close_g1_def data_g1_def
  data_g1_bad_base64_def foo_g1_def close_no_guid_def close_bad_guid_def

lemmas act_eval = Let_def bind_def ret_def on_pool_def send_data_def transport_write_def
  transport_data_def close_ack_def command_ack_def data_ack_def signal_ack_def
  PipelineThread_close_def PipelineThread_stop_def RunspaceThread_close_def
  RunspaceThread_join_def

lemmas process_eval = process_def process_close_def process_command_def process_data_def
  process_signal_def

lemma sample_signal_zero:
  "process fx signal_zero (fx_transport fx_pool0)
   = Some (Inr (), (fx_transport fx_pool0)\<lparr>processed := [signal_zero]\<rparr>)"
  by (simp add: process_eval fx_eval act_eval)

lemma sample_close_unknown:
  "process fx close_g1 (fx_transport fx_pool0)
   = Some (Inl (Exn KeyError (repr_uuid g1)),
           (fx_transport fx_pool0)\<lparr>processed := [close_g1]\<rparr>)"
  by (simp add: process_eval fx_eval act_eval)

text \<open>
  A well-formed \<^verbatim>\<open>Signal\<close> packet with the zero GUID is processed without an error and
  nothing is sent: it gets no \<^verbatim>\<open>SignalAck\<close>. A well-formed \<^verbatim>\<open>Close\<close> packet for a
  pipeline that is not in the table raises \<^verbatim>\<open>KeyError\<close> and nothing is sent either.
\<close>

theorem signal_zero_guid_counterexample:
  "result_of (process fx signal_zero (fx_transport fx_pool0)) = Some (Inr ())
   \<and> wire_of (process fx signal_zero (fx_transport fx_pool0)) = Some []
   \<and> result_of (process fx close_g1 (fx_transport fx_pool0))
       = Some (Inl (Exn KeyError (repr_uuid g1)))
   \<and> wire_of (process fx close_g1 (fx_transport fx_pool0)) = Some []"
  by (simp add: sample_signal_zero sample_close_unknown result_of_def wire_of_def)
    (simp add: fx_transport_def)

lemma fx_parse_data:
  "fromstring fx data_g1 = Inr \<lparr>el_tag = ''Data'',
      el_attrib = [''Stream'' \<mapsto> ''Default'', ''PSGuid'' \<mapsto> g1_text], el_text = Some ''aGk=''\<rparr>"
  by (simp add: fx_eval)

lemma fx_UUID_g1: "UUID fx g1_text = Inr g1"
  by (simp add: fx_eval)

lemma sample_data_returns:
  "\<exists>t'. process fx data_g1 fx_transport_input = Some (Inr (), t')"
  by (simp add: process_eval fx_eval act_eval drain_events.simps)

theorem process_emits_ack_witness:
  "result_of (process fx data_g1 fx_transport_input) = Some (Inr ())
   \<and> map_option acks_of (wire_of (process fx data_g1 fx_transport_input))
       = Some [ps_guid_packet ''DataAck'' (Some g1)]"
proof -
  from sample_data_returns obtain t' where
    ret: "process fx data_g1 fx_transport_input = Some (Inr (), t')" by blast
  have "el_attrib \<lparr>el_tag = ''Data'',
      el_attrib = [''Stream'' \<mapsto> ''Default'', ''PSGuid'' \<mapsto> g1_text], el_text = Some ''aGk=''\<rparr>
      ''PSGuid'' = Some g1_text" by simp
  from process_emits_ack [OF fx_parse_data this fx_UUID_g1, of fx_transport_input] ret
  have "acks_of (wire t') = acks_of (wire fx_transport_input) @ emitted_acks ''Data'' (Some g1)"
    by (simp add: g1_def)
  then have "acks_of (wire t') = [ps_guid_packet ''DataAck'' (Some g1)]"
    by (simp add: emitted_acks_def acks_of_def fx_transport_input_def fx_transport_def)
  with ret show ?thesis
    by (simp add: result_of_def wire_of_def)
qed


section \<open>The read loop\<close>

text \<open>
  C3. The specification says that every split of the inbound byte stream into read chunks yields
  the same packets, a chunk holding more than one complete packet included. The loop
  cuts a chunk at its first line-feed only and keeps the rest as the new buffer, so a
  second packet of the same chunk stays in the buffer with its line-feed and is glued to
  the next packet. Below, the same three packets arrive once as two chunks (two packets
  in the first) and once as three: the first run hands \<^verbatim>\<open>_process\<close> the Command packet
  and then the Signal packet, a line-feed and the Close packet as one element, which does
  not parse, so the pool is broken after the CommandAck; the second run processes the
  three packets and acknowledges each.
\<close>

theorem read_loop_batched_chunk:
  "processed_of (run fx [command_g1 @ [LF] @ signal_g1 @ [LF], close_g1 @ [LF]]
       (fx_transport fx_pool0))
     = Some [command_g1, signal_g1 @ [LF] @ close_g1]
   \<and> wire_of (run fx [command_g1 @ [LF] @ signal_g1 @ [LF], close_g1 @ [LF]]
       (fx_transport fx_pool0))
     = Some [ps_guid_packet ''CommandAck'' (Some g1), ps_data_packet ''broken'' StreamDefault None]
   \<and> processed_of (run fx [command_g1 @ [LF], signal_g1 @ [LF], close_g1 @ [LF]]
       (fx_transport fx_pool0))
     = Some [command_g1, signal_g1, close_g1]
   \<and> wire_of (run fx [command_g1 @ [LF], signal_g1 @ [LF], close_g1 @ [LF]]
       (fx_transport fx_pool0))
     = Some [ps_guid_packet ''CommandAck'' (Some g1), ps_guid_packet ''SignalAck'' (Some g1),
             ps_guid_packet ''CloseAck'' (Some g1)]
   \<and> concat [command_g1 @ [LF] @ signal_g1 @ [LF], close_g1 @ [LF]]
     = concat [command_g1 @ [LF], signal_g1 @ [LF], close_g1 @ [LF]]"
  by (simp add: processed_of_def wire_of_def run_def process_eval fx_eval act_eval LF_def
      read_error_record_def)



lemma read_loop_raise:
  assumes "chunk \<noteq> []" and "index_of LF chunk = Some i"
    and "process x (concat buffer @ take i chunk) t = Some (Inl e, t1)"
  shows "read_loop x (chunk # chunks) buffer t =
     (if pool_state x (pool t1) = Opened \<or> pool_state x (pool t1) = Broken
      then Some (bind (on_pool (set_broken x (read_error_record x e (pool t1))))
                   (\<lambda>_. send_data x) t1)
      else Some (Inl e, t1))"
  using assms by (simp add: Let_def)

text \<open>
  C4. For every exception raised while one inbound packet is processed in the read loop:
  if the state of the runspace pool is Opened or Broken, the pool is set broken with an
  ErrorRecord of activity "Parsing PSRP msg", reason "Unknown result", target name
  RunspacePool(id), category ReadError and fully-qualified error id
  ProcessRunspaceMessageFailure, the bytes the codec then has to send are written to the
  connection as a data packet, and the read loop ends without reading further chunks; in
  any other pool state the exception leaves the read loop.
\<close>

theorem read_loop_exception_policy:
  assumes "chunk \<noteq> []" and "index_of LF chunk = Some i"
    and "process x (concat buffer @ take i chunk) t = Some (Inl e, t1)"
  shows "((pool_state x (pool t1) = Opened \<or> pool_state x (pool t1) = Broken)
          \<and> set_broken x
               \<lparr>Exception = \<lparr>Message = exn_str e, StackTrace = format_exc x e\<rparr>,
                CategoryInfo =
                  \<lparr>Category = ReadError, Activity = Some ''Parsing PSRP msg'',
                   Reason = Some ''Unknown result'',
                   TargetName = Some (''RunspacePool(''
                     @ guid_lowercase_hyphenated (runspace_pool_id x (pool t1)) @ '')''),
                   TargetType = Some ''RunspaceThread''\<rparr>,
                FullyQualifiedErrorId = Some ''ProcessRunspaceMessageFailure''\<rparr>
               (pool t1) = (Inr (), rp2)
          \<and> data_to_send x rp2 = (Inr resp, rp3)
         \<longrightarrow> read_loop x (chunk # chunks) buffer t =
               Some (Inr (), t1\<lparr>pool := rp3,
                 wire := wire t1 @ (case resp of None \<Rightarrow> []
                   | Some p \<Rightarrow> [ps_data_packet (payload_data p) (payload_stream_type p)
                                 (payload_pipeline_id p)])\<rparr>))
       \<and> (pool_state x (pool t1) \<noteq> Opened \<and> pool_state x (pool t1) \<noteq> Broken
         \<longrightarrow> read_loop x (chunk # chunks) buffer t = Some (Inl e, t1))"
  unfolding read_loop_raise [OF assms]
  by (cases resp)
    (simp_all add: read_error_record_def uuid_str_groups bind_def on_pool_def send_data_def
      ret_def transport_data_def transport_write_def)

lemma index_of_append_LF: "LF \<notin> set xs \<Longrightarrow> index_of LF (xs @ LF # ys) = Some (length xs)"
  by (induction xs) auto

lemma sample_bad_guid:
  "process fx close_bad_guid (fx_transport rp)
   = Some (Inl (Exn ValueError ''badly formed hexadecimal UUID string''),
           (fx_transport rp)\<lparr>processed := [close_bad_guid]\<rparr>)"
  by (simp add: process_eval fx_eval act_eval)

theorem read_loop_exception_policy_witness:
  "run fx [close_bad_guid @ [LF], close_g1 @ [LF]] (fx_transport fx_pool0)
     = Some (Inr (), (fx_transport fx_pool0)
         \<lparr>pool := fx_pool0
            \<lparr>fx_state := Broken,
             fx_calls := [Call_set_broken
               \<lparr>Exception = \<lparr>Message = ''badly formed hexadecimal UUID string'',
                              StackTrace = ''Traceback (most recent call last)''\<rparr>,
                CategoryInfo =
                  \<lparr>Category = ReadError, Activity = Some ''Parsing PSRP msg'',
                   Reason = Some ''Unknown result'',
                   TargetName = Some ''RunspacePool(00000000-0000-0000-0000-000000000000)'',
                   TargetType = Some ''RunspaceThread''\<rparr>,
                FullyQualifiedErrorId = Some ''ProcessRunspaceMessageFailure''\<rparr>]\<rparr>,
          wire := [ps_data_packet ''broken'' StreamDefault None],
          processed := [close_bad_guid]\<rparr>)
   \<and> run fx [close_bad_guid @ [LF], close_g1 @ [LF]] (fx_transport fx_pool_closed)
     = Some (Inl (Exn ValueError ''badly formed hexadecimal UUID string''),
             (fx_transport fx_pool_closed)\<lparr>processed := [close_bad_guid]\<rparr>)"
proof -
  have ne: "close_bad_guid @ [LF] \<noteq> []" by simp
  have idx: "index_of LF (close_bad_guid @ [LF]) = Some (length close_bad_guid)"
    by (rule index_of_append_LF) (simp add: close_bad_guid_def LF_def)
  have pr: "process fx (concat [] @ take (length close_bad_guid) (close_bad_guid @ [LF]))
      (fx_transport rp)
    = Some (Inl (Exn ValueError ''badly formed hexadecimal UUID string''),
            (fx_transport rp)\<lparr>processed := [close_bad_guid]\<rparr>)" for rp
    by (simp add: sample_bad_guid)
  note pol = read_loop_exception_policy [OF ne idx pr, of _ _ _ _ "[close_g1 @ [LF]]"]
  show ?thesis
    unfolding run_def
    using pol [of fx_pool0 "fx_pool0\<lparr>fx_state := Broken,
             fx_calls := [Call_set_broken
               \<lparr>Exception = \<lparr>Message = ''badly formed hexadecimal UUID string'',
                              StackTrace = ''Traceback (most recent call last)''\<rparr>,
                CategoryInfo =
                  \<lparr>Category = ReadError, Activity = Some ''Parsing PSRP msg'',
                   Reason = Some ''Unknown result'',
                   TargetName = Some ''RunspacePool(00000000-0000-0000-0000-000000000000)'',
                   TargetType = Some ''RunspaceThread''\<rparr>,
                FullyQualifiedErrorId = Some ''ProcessRunspaceMessageFailure''\<rparr>],
             fx_outbox := [\<lparr>payload_data = ''broken'', payload_stream_type = StreamDefault,
                payload_pipeline_id = None\<rparr>]\<rparr>"
          "Some \<lparr>payload_data = ''broken'', payload_stream_type = StreamDefault,
                payload_pipeline_id = None\<rparr>"
          "fx_pool0\<lparr>fx_state := Broken,
             fx_calls := [Call_set_broken
               \<lparr>Exception = \<lparr>Message = ''badly formed hexadecimal UUID string'',
                              StackTrace = ''Traceback (most recent call last)''\<rparr>,
                CategoryInfo =
                  \<lparr>Category = ReadError, Activity = Some ''Parsing PSRP msg'',
                   Reason = Some ''Unknown result'',
                   TargetName = Some ''RunspacePool(00000000-0000-0000-0000-000000000000)'',
                   TargetType = Some ''RunspaceThread''\<rparr>,
                FullyQualifiedErrorId = Some ''ProcessRunspaceMessageFailure''\<rparr>]\<rparr>"]
      pol [of fx_pool_closed]
    by (simp add: fx_def fx_transport_def fx_pool0_def fx_pool_closed_def fx_call_def
        fx_queue_def guid_zero_text)
qed



subsection \<open>Chunks with at most one line-feed\<close>

lemma send_data_processed:
  fixes s :: "('rp, 'v) transport"
  shows "send_data x s = (r, s') \<Longrightarrow> processed s' = processed s"
  by (auto simp: send_data_def bind_def on_pool_def ret_def transport_data_def
      transport_write_def split: prod.splits sum.splits option.splits)

lemma pipeline_run_processed:
  fixes s :: "('rp, 'v) transport"
  shows "pipeline_run x q th s = (ex, th', s') \<Longrightarrow> processed s' = processed s"
proof (induction x q th s arbitrary: ex th' s' rule: pipeline_run.induct)
  case (1 x th s)
  then show ?case by simp
next
  case (2 x q th s)
  then show ?case by simp
next
  case (3 x ev q th s)
  show ?case
  proof (cases "pipeline_handle_event x ev th")
    case (Inl e)
    with "3.prems" show ?thesis by simp
  next
    case (Inr th1)
    obtain r s1 where sd: "send_data x s = (r, s1)" by (cases "send_data x s")
    then have p1: "processed s1 = processed s" by (rule send_data_processed)
    show ?thesis
    proof (cases r)
      case (Inl e)
      with "3.prems" Inr sd p1 show ?thesis by simp
    next
      case r: (Inr u)
      with "3.prems" Inr sd have "pipeline_run x q th1 s1 = (ex, th', s')" by simp
      from "3.IH" [OF Inr sd [symmetric] r this] p1 show ?thesis by simp
    qed
  qed
qed

lemma runspace_run_processed:
  "runspace_run x q t = (ex, t') \<Longrightarrow> processed t' = processed t"
proof (induction x q t arbitrary: ex t' rule: runspace_run.induct)
  case (1 x t)
  then show ?case by auto
next
  case (2 x q t)
  then show ?case by auto
next
  case (3 x ev q t)
  define t1 where "t1 = (case ev of
      RunspacePoolHostResponseEvent ci err res \<Rightarrow>
        t\<lparr>rs_host_result := (rs_host_result t)(ci \<mapsto> host_response_value err res)\<rparr>
    | _ \<Rightarrow> t)"
  have w1: "processed t1 = processed t" by (simp add: t1_def split: PSRPEvent.splits)
  obtain r t2 where sd: "send_data x t1 = (r, t2)" by (cases "send_data x t1")
  then have a2: "processed t2 = processed t1" by (rule send_data_processed)
  show ?case
  proof (cases r)
    case (Inl e)
    with "3.prems" sd a2 w1 show ?thesis by (auto simp: t1_def [symmetric] Let_def)
  next
    case (Inr u)
    with "3.prems" sd have "runspace_run x q t2 = (ex, t')"
      by (simp add: t1_def [symmetric] Let_def)
    from "3.IH" [OF t1_def sd [symmetric] Inr this] a2 w1 show ?thesis by simp
  qed
qed

lemma drain_events_processed:
  assumes "drain_events x g t = Some (r, t')"
  shows "processed t' = processed t"
proof -
  have "(case ((x, g), t) of
           (a, b) \<Rightarrow> (case a of (a, c) \<Rightarrow> (\<lambda>x g t out. processed (snd out) = processed t) a c) b)
          (r, t')"
  proof (rule drain_events.raw_induct
      [where P = "\<lambda>x g t out. processed (snd out) = processed t"])
    show "(case ((x, g), t) of (a, b) \<Rightarrow> (case a of (a, c) \<Rightarrow> drain_events a c) b)
        = Some (r, t')"
      using assms by simp
  next
    fix f :: "('a, 'b) ext \<Rightarrow> uuid option \<Rightarrow> ('a, 'b) transport
        \<Rightarrow> ((exn + unit) \<times> ('a, 'b) transport) option"
      and x g t out
    assume IH: "\<And>g t b y. f g t b = Some y \<Longrightarrow> processed (snd y) = processed b"
      and eq: "(case on_pool (next_event x) t of
          (Inl e, t1) \<Rightarrow> Some (Inl e, t1)
        | (Inr None, t1) \<Rightarrow> Some (Inr (), t1)
        | (Inr (Some ev), t1) \<Rightarrow>
            (case g of
               None \<Rightarrow> f x g (t1\<lparr>rs_event_queue := rs_event_queue t1 @ [Some ev]\<rparr>)
             | Some p \<Rightarrow>
                 (case pipelines t1 p of
                    None \<Rightarrow> Some (Inl (Exn KeyError (repr_uuid p)), t1)
                  | Some th \<Rightarrow>
                      f x g
                        (t1\<lparr>pipelines :=
                             (pipelines t1)(p \<mapsto> th\<lparr>event_queue := event_queue th @ [Some ev]\<rparr>)\<rparr>))))
          = Some out"
    obtain res t1 where np: "on_pool (next_event x) t = (res, t1)"
      by (cases "on_pool (next_event x) t")
    then have w1: "processed t1 = processed t"
      by (auto simp: on_pool_def split: prod.splits)
    from eq np show "processed (snd out) = processed t"
      using w1 by (auto split: sum.splits option.splits dest!: IH)
  qed
  then show ?thesis by simp
qed

lemma process_close_processed:
  assumes "process_close x g t = Some (r, t')"
  shows "processed t' = processed t"
proof (cases g)
  case None
  obtain r1 t1 where rc: "RunspaceThread_close x t = (r1, t1)"
    by (cases "RunspaceThread_close x t")
  then have p1: "processed t1 = processed t"
    by (auto simp: RunspaceThread_close_def bind_def on_pool_def
        split: prod.splits sum.splits dest: send_data_processed)
  show ?thesis
  proof (cases r1)
    case (Inl e)
    with assms None rc p1 show ?thesis by (auto simp: process_close_def)
  next
    case (Inr u)
    with assms None rc obtain t2 where j: "RunspaceThread_join x t1 = Some t2"
      and ca: "close_ack g t2 = (r, t')"
      by (auto simp: process_close_def split: option.splits)
    from j have "processed t2 = processed t1"
      by (auto simp: RunspaceThread_join_def split: if_splits prod.splits thread_exit.splits
          dest: runspace_run_processed)
    moreover from ca have "processed t' = processed t2"
      by (auto simp: close_ack_def transport_write_def)
    ultimately show ?thesis using p1 by simp
  qed
next
  case (Some p)
  show ?thesis
  proof (cases "pipelines t p")
    case None
    with assms Some show ?thesis by (auto simp: process_close_def)
  next
    case th: (Some th)
    let ?t0 = "t\<lparr>pipelines := (pipelines t)(p := None)\<rparr>"
    obtain r1 t1 where cl: "PipelineThread_close x p th ?t0 = (r1, t1)"
      by (cases "PipelineThread_close x p th ?t0")
    then have p1: "processed t1 = processed t"
      by (auto simp: PipelineThread_close_def bind_def on_pool_def ret_def
          split: prod.splits sum.splits if_splits)
    show ?thesis
    proof (cases r1)
      case (Inl e)
      with assms Some th cl p1 show ?thesis by (auto simp: process_close_def)
    next
      case (Inr th1)
      obtain ex th2 t2 where pr: "pipeline_run x (event_queue th1) th1 t1 = (ex, th2, t2)"
        by (cases "pipeline_run x (event_queue th1) th1 t1")
      then have p2: "processed t2 = processed t1" by (rule pipeline_run_processed)
      from assms Some th cl Inr pr have "close_ack g t2 = (r, t')"
        by (auto simp: process_close_def split: thread_exit.splits)
      then have "processed t' = processed t2"
        by (auto simp: close_ack_def transport_write_def)
      with p1 p2 show ?thesis by simp
    qed
  qed
qed

lemma process_command_processed:
  "process_command x g t = (r, t') \<Longrightarrow> processed t' = processed t"
  by (auto simp: process_command_def on_pool_def command_ack_def transport_write_def
      split: option.splits prod.splits sum.splits)

lemma PipelineThread_stop_processed:
  fixes s :: "('rp, 'v) transport"
  shows "PipelineThread_stop x p s = (r, s') \<Longrightarrow> processed s' = processed s"
  by (auto simp: PipelineThread_stop_def bind_def on_pool_def ret_def
      split: prod.splits sum.splits)

lemma process_signal_processed:
  "process_signal x g t = (r, t') \<Longrightarrow> processed t' = processed t"
  by (auto simp: process_signal_def bind_def signal_ack_def transport_write_def
      split: option.splits prod.splits sum.splits dest: PipelineThread_stop_processed)

lemma process_data_processed:
  assumes "process_data x body stream g t = Some (r, t')"
  shows "processed t' = processed t"
proof (cases "case body of None \<Rightarrow> Inr [] | Some d \<Rightarrow> if d = [] then Inr [] else b64decode x d")
  case (Inl e)
  with assms show ?thesis by (auto simp: process_data_def)
next
  case (Inr d)
  define pl where "pl = \<lparr>payload_data = d,
      payload_stream_type = (if stream = ''PromptResponse'' then StreamPromptResponse else StreamDefault),
      payload_pipeline_id = g\<rparr>"
  obtain r1 t1 where rd: "on_pool (receive_data x pl) t = (r1, t1)"
    by (cases "on_pool (receive_data x pl) t")
  then have p1: "processed t1 = processed t"
    by (auto simp: on_pool_def split: prod.splits)
  show ?thesis
  proof (cases r1)
    case (Inl e)
    with assms Inr rd p1 show ?thesis
      by (auto simp: process_data_def Let_def pl_def [symmetric])
  next
    case r1: (Inr u)
    with assms Inr rd obtain r2 t2 where dr: "drain_events x g t1 = Some (r2, t2)"
      by (auto simp: process_data_def Let_def pl_def [symmetric] split: option.splits)
    then have p2: "processed t2 = processed t1" by (rule drain_events_processed)
    from assms Inr rd r1 dr have "processed t' = processed t2"
      by (cases r2)
        (auto simp: process_data_def Let_def pl_def [symmetric] data_ack_def transport_write_def)
    with p1 p2 show ?thesis by simp
  qed
qed


lemma process_processed:
  assumes "process x raw t = Some (r, t')"
  shows "processed t' = processed t @ [raw]"
proof -
  let ?t = "t\<lparr>processed := processed t @ [raw]\<rparr>"
  have base: "processed ?t = processed t @ [raw]" by simp
  show ?thesis
  proof (cases "fromstring x raw")
    case (Inl e)
    with assms show ?thesis by (auto simp: process_def Let_def)
  next
    case (Inr el)
    show ?thesis
    proof (cases "el_attrib el ''PSGuid''")
      case None
      with assms Inr show ?thesis by (auto simp: process_def Let_def)
    next
      case (Some gt)
      show ?thesis
      proof (cases "UUID x gt")
        case (Inl e)
        with assms Inr Some show ?thesis by (auto simp: process_def Let_def)
      next
        case u: (Inr u)
        note pw = process_wellformed [OF Inr Some u, of t]
        let ?g = "if u = 0 then None else Some u"
        consider (close) "el_tag el = ''Close''" | (command) "el_tag el = ''Command''"
          | (data) "el_tag el = ''Data''" | (signal) "el_tag el = ''Signal''"
          | (other) "el_tag el \<noteq> ''Close''" "el_tag el \<noteq> ''Command''"
              "el_tag el \<noteq> ''Data''" "el_tag el \<noteq> ''Signal''"
          by blast
        then show ?thesis
        proof cases
          case close
          with assms have "process_close x ?g ?t = Some (r, t')" unfolding pw by simp
          from process_close_processed [OF this] show ?thesis by simp
        next
          case command
          with assms have "process_command x ?g ?t = (r, t')" unfolding pw by simp
          from process_command_processed [OF this] show ?thesis by simp
        next
          case data
          with assms have "process_data x (el_text el)
              (case el_attrib el ''Stream'' of None \<Rightarrow> [] | Some s \<Rightarrow> s) ?g ?t = Some (r, t')"
            unfolding pw by simp
          from process_data_processed [OF this] show ?thesis by simp
        next
          case signal
          with assms have "process_signal x ?g ?t = (r, t')" unfolding pw by simp
          from process_signal_processed [OF this] show ?thesis by simp
        next
          case other
          with assms have "t' = ?t" unfolding pw by simp
          then show ?thesis by simp
        qed
      qed
    qed
  qed
qed

lemma index_of_None: "index_of c xs = None \<longleftrightarrow> c \<notin> set xs"
  by (induction xs) auto

lemma index_of_Some:
  "index_of c xs = Some i \<Longrightarrow> c \<notin> set (take i xs) \<and> i < length xs \<and> xs ! i = c"
proof (induction xs arbitrary: i)
  case Nil
  then show ?case by simp
next
  case (Cons y ys)
  show ?case
  proof (cases "y = c")
    case True
    with Cons.prems show ?thesis by simp
  next
    case False
    with Cons.prems obtain j where j: "index_of c ys = Some j" and i: "i = Suc j"
      by auto
    from Cons.IH [OF j] False i show ?thesis by simp
  qed
qed

lemma split_packets_no_LF:
  "LF \<notin> set xs \<Longrightarrow> split_packets cur (xs @ ys) = split_packets (cur @ xs) ys"
  by (induction xs arbitrary: cur) auto

lemma split_packets_cut:
  "LF \<notin> set xs \<Longrightarrow>
   split_packets cur (xs @ LF # ys) = (cur @ xs) # split_packets [] ys"
  by (simp add: split_packets_no_LF)

lemma one_LF_rest:
  assumes "count_list chunk LF \<le> 1" and "index_of LF chunk = Some i"
  shows "chunk = take i chunk @ LF # drop (i + 1) chunk
       \<and> LF \<notin> set (take i chunk) \<and> LF \<notin> set (drop (i + 1) chunk)"
proof -
  from index_of_Some [OF assms(2)] have a: "LF \<notin> set (take i chunk)"
    and i: "i < length chunk" and c: "chunk ! i = LF" by simp_all
  from i c have eq: "chunk = take i chunk @ LF # drop (i + 1) chunk"
    using id_take_nth_drop [of i chunk] by simp
  have "count_list chunk LF
      = count_list (take i chunk) LF + 1 + count_list (drop (i + 1) chunk) LF"
    by (subst eq) simp
  with assms(1) have "count_list (drop (i + 1) chunk) LF = 0" by simp
  then have "LF \<notin> set (drop (i + 1) chunk)" by (simp add: count_list_0_iff)
  with a eq show ?thesis by blast
qed

text \<open>
  When every chunk holds at most one line-feed (as with \<^verbatim>\<open>StdioConnection\<close>, whose
  \<^verbatim>\<open>read\<close> is \<^verbatim>\<open>readline\<close>), however the packets are split over the chunks, the
  elements handed to \<^verbatim>\<open>_process\<close> are packets of the byte stream, in order: the loop
  stops early when processing raises or the input ends, and never hands over anything
  that is not a packet.
\<close>

lemma read_loop_single_line_feed_chunks:
  assumes "\<forall>c \<in> set chunks. count_list c LF \<le> 1"
    and "LF \<notin> set (concat buffer)"
    and "read_loop x chunks buffer t = Some (r, t')"
  shows "\<exists>rest. processed t @ split_packets (concat buffer) (concat chunks)
           = processed t' @ rest"
  using assms
proof (induction chunks arbitrary: buffer t)
  case Nil
  then show ?case by simp
next
  case (Cons chunk chunks)
  show ?case
  proof (cases "chunk = []")
    case True
    with Cons.prems show ?thesis by auto
  next
    case ne: False
    show ?thesis
    proof (cases "index_of LF chunk")
      case None
      then have nolf: "LF \<notin> set chunk" by (simp add: index_of_None)
      from Cons.prems(3) ne None
      have rl: "read_loop x chunks (buffer @ [chunk]) t = Some (r, t')" by simp
      from Cons.prems(2) nolf have "LF \<notin> set (concat (buffer @ [chunk]))" by simp
      from Cons.IH [OF _ this rl] Cons.prems(1)
      obtain rest where "processed t @ split_packets (concat (buffer @ [chunk])) (concat chunks)
          = processed t' @ rest" by auto
      with nolf show ?thesis
        by (simp add: split_packets_no_LF)
    next
      case (Some i)
      from Cons.prems(1) have "count_list chunk LF \<le> 1" by simp
      from one_LF_rest [OF this Some]
      have eq: "chunk = take i chunk @ LF # drop (i + 1) chunk"
        and a: "LF \<notin> set (take i chunk)" and b: "LF \<notin> set (drop (i + 1) chunk)"
        by blast+
      let ?raw = "concat buffer @ take i chunk"
      have sp: "split_packets (concat buffer) (concat (chunk # chunks))
          = ?raw # split_packets [] (drop (i + 1) chunk @ concat chunks)"
      proof -
        have c: "concat (chunk # chunks)
            = take i chunk @ LF # (drop (i + 1) chunk @ concat chunks)"
          by (subst eq) simp
        show ?thesis unfolding c by (rule split_packets_cut [OF a])
      qed
      have sp2: "split_packets [] (drop (i + 1) chunk @ concat chunks)
          = split_packets (concat [drop (i + 1) chunk]) (concat chunks)"
        using b by (simp add: split_packets_no_LF)
      from Cons.prems(3) ne Some obtain r1 t1 where
        p: "process x ?raw t = Some (r1, t1)"
        by (cases "process x ?raw t") (auto simp: Let_def)
      from process_processed [OF p] have p1: "processed t1 = processed t @ [?raw]" .
      show ?thesis
      proof (cases r1)
        case (Inr u)
        with Cons.prems(3) ne Some p
        have rl: "read_loop x chunks [drop (i + 1) chunk] t1 = Some (r, t')"
          by (simp add: Let_def)
        from b have "LF \<notin> set (concat [drop (i + 1) chunk])" by simp
        from Cons.IH [OF _ this rl] Cons.prems(1)
        obtain rest where "processed t1 @ split_packets (concat [drop (i + 1) chunk]) (concat chunks)
            = processed t' @ rest" by auto
        with p1 show ?thesis
          unfolding sp sp2 by auto
      next
        case (Inl e)
        have "processed t' = processed t1"
        proof (cases "pool_state x (pool t1) = Opened \<or> pool_state x (pool t1) = Broken")
          case True
          with Cons.prems(3) ne Some p Inl
          have "bind (on_pool (set_broken x (read_error_record x e (pool t1))))
              (\<lambda>_. send_data x) t1 = (r, t')"
            by (simp add: Let_def)
          then show ?thesis
            by (auto simp: bind_def on_pool_def split: prod.splits sum.splits
                dest: send_data_processed)
        next
          case False
          with Cons.prems(3) ne Some p Inl show ?thesis by (simp add: Let_def)
        qed
        with p1 show ?thesis
          unfolding sp by simp
      qed
    qed
  qed
qed

section \<open>Decoding an inbound packet\<close>

text \<open>
  C5 (as amended). Decoding an inbound packet fails, with the exception of the library
  function that rejects it, whenever the packet is not well-formed XML, has no
  \<^verbatim>\<open>PSGuid\<close> attribute (a \<^verbatim>\<open>KeyError\<close>) or has a \<^verbatim>\<open>PSGuid\<close> that
  \<^verbatim>\<open>uuid.UUID\<close> rejects, and a Data packet with a non-empty body fails when
  \<^verbatim>\<open>base64.b64decode\<close> rejects the body. A well-formed element with a valid
  \<^verbatim>\<open>PSGuid\<close> whose tag is none of Close, Command, Data and Signal (the four ack tags
  and any unknown tag) is accepted and ignored: nothing is done and nothing is sent.
\<close>

theorem process_rejects:
  "(fromstring x raw = Inl e
      \<longrightarrow> process x raw t = Some (Inl e, t\<lparr>processed := processed t @ [raw]\<rparr>))
   \<and> (fromstring x raw = Inr el \<and> el_attrib el ''PSGuid'' = None
      \<longrightarrow> process x raw t =
            Some (Inl (Exn KeyError ([QUOTE] @ ''PSGuid'' @ [QUOTE])),
                  t\<lparr>processed := processed t @ [raw]\<rparr>))
   \<and> (fromstring x raw = Inr el \<and> el_attrib el ''PSGuid'' = Some gt \<and> UUID x gt = Inl e
      \<longrightarrow> process x raw t = Some (Inl e, t\<lparr>processed := processed t @ [raw]\<rparr>))
   \<and> (fromstring x raw = Inr el \<and> el_attrib el ''PSGuid'' = Some gt \<and> UUID x gt = Inr u
        \<and> el_tag el = ''Data'' \<and> el_text el = Some d \<and> d \<noteq> [] \<and> b64decode x d = Inl e
      \<longrightarrow> process x raw t = Some (Inl e, t\<lparr>processed := processed t @ [raw]\<rparr>))
   \<and> (fromstring x raw = Inr el \<and> el_attrib el ''PSGuid'' = Some gt \<and> UUID x gt = Inr u
        \<and> el_tag el \<noteq> ''Close'' \<and> el_tag el \<noteq> ''Command''
        \<and> el_tag el \<noteq> ''Data'' \<and> el_tag el \<noteq> ''Signal''
      \<longrightarrow> process x raw t = Some (Inr (), t\<lparr>processed := processed t @ [raw]\<rparr>))"
proof (intro conjI impI)
  assume "fromstring x raw = Inl e"
  then show "process x raw t = Some (Inl e, t\<lparr>processed := processed t @ [raw]\<rparr>)"
    by (simp add: process_def Let_def)
next
  assume "fromstring x raw = Inr el \<and> el_attrib el ''PSGuid'' = None"
  then show "process x raw t =
      Some (Inl (Exn KeyError ([QUOTE] @ ''PSGuid'' @ [QUOTE])),
            t\<lparr>processed := processed t @ [raw]\<rparr>)"
    by (simp add: process_def Let_def)
next
  assume "fromstring x raw = Inr el \<and> el_attrib el ''PSGuid'' = Some gt \<and> UUID x gt = Inl e"
  then show "process x raw t = Some (Inl e, t\<lparr>processed := processed t @ [raw]\<rparr>)"
    by (simp add: process_def Let_def)
next
  assume a: "fromstring x raw = Inr el \<and> el_attrib el ''PSGuid'' = Some gt \<and> UUID x gt = Inr u
      \<and> el_tag el = ''Data'' \<and> el_text el = Some d \<and> d \<noteq> [] \<and> b64decode x d = Inl e"
  then have "process x raw t =
      process_data x (el_text el) (case el_attrib el ''Stream'' of None \<Rightarrow> [] | Some s \<Rightarrow> s)
        (if u = 0 then None else Some u) (t\<lparr>processed := processed t @ [raw]\<rparr>)"
    using process_wellformed [of x raw el gt u t] by simp
  with a show "process x raw t = Some (Inl e, t\<lparr>processed := processed t @ [raw]\<rparr>)"
    by (simp add: process_data_def)
next
  assume a: "fromstring x raw = Inr el \<and> el_attrib el ''PSGuid'' = Some gt \<and> UUID x gt = Inr u
      \<and> el_tag el \<noteq> ''Close'' \<and> el_tag el \<noteq> ''Command''
      \<and> el_tag el \<noteq> ''Data'' \<and> el_tag el \<noteq> ''Signal''"
  then show "process x raw t = Some (Inr (), t\<lparr>processed := processed t @ [raw]\<rparr>)"
    using process_wellformed [of x raw el gt u t] by simp
qed

theorem process_rejects_witness:
  "result_of (process fx ''<Close'' (fx_transport fx_pool0))
     = Some (Inl (Exn ParseError ''syntax error''))
   \<and> result_of (process fx close_no_guid (fx_transport fx_pool0))
     = Some (Inl (Exn KeyError ([QUOTE] @ ''PSGuid'' @ [QUOTE])))
   \<and> result_of (process fx close_bad_guid (fx_transport fx_pool0))
     = Some (Inl (Exn ValueError ''badly formed hexadecimal UUID string''))
   \<and> result_of (process fx data_g1_bad_base64 (fx_transport fx_pool0))
     = Some (Inl (Exn BinasciiError ''Incorrect padding''))
   \<and> result_of (process fx foo_g1 (fx_transport fx_pool0)) = Some (Inr ())"
  using
    process_rejects [of fx "''<Close''" "Exn ParseError ''syntax error''" "fx_transport fx_pool0"]
    process_rejects [of fx close_no_guid _ "fx_transport fx_pool0"
      "\<lparr>el_tag = ''Close'', el_attrib = Map.empty, el_text = None\<rparr>"]
    process_rejects [of fx close_bad_guid "Exn ValueError ''badly formed hexadecimal UUID string''"
      "fx_transport fx_pool0"
      "\<lparr>el_tag = ''Close'', el_attrib = [''PSGuid'' \<mapsto> ''xyz''], el_text = None\<rparr>" "''xyz''"]
    process_rejects [of fx data_g1_bad_base64 "Exn BinasciiError ''Incorrect padding''"
      "fx_transport fx_pool0"
      "\<lparr>el_tag = ''Data'', el_attrib = [''Stream'' \<mapsto> ''Default'', ''PSGuid'' \<mapsto> g1_text],
        el_text = Some ''aGk''\<rparr>" g1_text g1 "''aGk''"]
    process_rejects [of fx foo_g1 _ "fx_transport fx_pool0"
      "\<lparr>el_tag = ''Foo'', el_attrib = [''PSGuid'' \<mapsto> g1_text], el_text = Some ''aGk''\<rparr>"
      g1_text g1]
  by (simp add: result_of_def fx_eval)

text \<open>
  A well-formed element with the unknown tag \<^verbatim>\<open>Foo\<close> is accepted: processing returns
  without an exception and sends nothing. Its body \<^verbatim>\<open>aGk\<close> is not valid base64
  (\<^verbatim>\<open>b64decode\<close> rejects it in a Data packet); it is never decoded.
\<close>

theorem unknown_tag_counterexample:
  "result_of (process fx foo_g1 (fx_transport fx_pool0)) = Some (Inr ())
   \<and> wire_of (process fx foo_g1 (fx_transport fx_pool0)) = Some []
   \<and> map_option el_text (projr_opt (fromstring fx foo_g1)) = Some (Some ''aGk'')
   \<and> b64decode fx ''aGk'' = Inl (Exn BinasciiError ''Incorrect padding'')"
  by (simp add: result_of_def wire_of_def projr_opt_def process_eval fx_eval act_eval)



section \<open>Closing a pipeline\<close>

lemma PipelineThread_close_result:
  assumes "if pipeline_state x g (pool s) = Running
           then pipeline_begin_stop x g (pool s) = (Inr (), rp1) else rp1 = pool s"
    and "pipeline_close x g rp1 = (Inr (), rp2)"
    and "data_to_send x rp2 = (Inr pending, rp3)"
  shows "PipelineThread_close x g th s
       = (Inr (th\<lparr>event_queue := event_queue th @ [None]\<rparr>), s\<lparr>pool := rp3\<rparr>)"
  using assms
  by (cases "pipeline_state x g (pool s) = Running")
    (simp_all add: PipelineThread_close_def bind_def on_pool_def ret_def)

text \<open>
  C6 (as amended). When the transport processes a \<^verbatim>\<open>Close\<close> packet carrying the guid
  \<open>g\<close> of a live pipeline, the entry of \<open>g\<close> is removed and the close sequence runs:
  \<^verbatim>\<open>begin_stop\<close> if the pipeline state is Running, then the codec's \<^verbatim>\<open>close\<close>, then
  the pending outbound bytes of the codec are taken with \<^verbatim>\<open>data_to_send()\<close> and
  dropped (they are not written to the transport), then the sentinel is enqueued. The
  worker is joined, which always returns, and CloseAck(\<open>g\<close>) is the last thing written,
  after the join. With an idle worker CloseAck(\<open>g\<close>) is the only thing written.
\<close>

theorem process_close_pipeline:
  assumes "pipelines t g = Some th"
    and "if pipeline_state x g (pool t) = Running
         then pipeline_begin_stop x g (pool t) = (Inr (), rp1) else rp1 = pool t"
    and "pipeline_close x g rp1 = (Inr (), rp2)"
    and "data_to_send x rp2 = (Inr pending, rp3)"
    and "pipeline_run x (event_queue th @ [None]) (th\<lparr>event_queue := event_queue th @ [None]\<rparr>)
           (t\<lparr>pipelines := (pipelines t)(g := None), pool := rp3\<rparr>) = (ex, th', t')"
  shows "ex \<noteq> Blocked
       \<and> process_close x (Some g) t
           = Some (Inr (), t'\<lparr>wire := wire t' @ [ps_guid_packet ''CloseAck'' (Some g)]\<rparr>)
       \<and> (event_queue th = [] \<longrightarrow> wire t' = wire t \<and> pool t' = rp3)"
proof -
  let ?t0 = "t\<lparr>pipelines := (pipelines t)(g := None)\<rparr>"
  let ?th = "th\<lparr>event_queue := event_queue th @ [None]\<rparr>"
  from assms(2) have bs: "if pipeline_state x g (pool ?t0) = Running
      then pipeline_begin_stop x g (pool ?t0) = (Inr (), rp1) else rp1 = pool ?t0"
    by simp
  have cl: "PipelineThread_close x g th ?t0 = (Inr ?th, ?t0\<lparr>pool := rp3\<rparr>)"
    by (rule PipelineThread_close_result [OF bs assms(3) assms(4)])
  from pipeline_run_sentinel [of x "event_queue th" ?th
      "t\<lparr>pipelines := (pipelines t)(g := None), pool := rp3\<rparr>"] assms(5)
  have ex: "ex \<noteq> Blocked" by simp
  have "process_close x (Some g) t
      = Some (Inr (), t'\<lparr>wire := wire t' @ [ps_guid_packet ''CloseAck'' (Some g)]\<rparr>)"
    using assms(1) assms(5) ex
    by (cases ex)
      (simp_all add: process_close_def cl close_ack_def transport_write_def)
  moreover have "wire t' = wire t \<and> pool t' = rp3" if "event_queue th = []"
    using assms(5) that by auto
  ultimately show ?thesis using ex by blast
qed

lemma sample_close_g1:
  "process fx close_g1 fx_transport_running
   = Some (Inr (), (fx_transport (fx_pool_running
        \<lparr>fx_pipeline_state := (fx_pipeline_state fx_pool_running)(g1 := Stopping),
         fx_outbox := [], fx_calls := [Call_begin_stop g1, Call_close g1]\<rparr>))
      \<lparr>wire := [ps_guid_packet ''CloseAck'' (Some g1)], processed := [close_g1]\<rparr>)"
  by (simp add: process_eval fx_eval act_eval)

text \<open>
  The pipeline \<open>g1\<close> is running and the codec holds one payload of \<open>g1\<close> that has not
  been sent. After its \<^verbatim>\<open>Close\<close> packet is processed the payload is gone from the codec
  and the only bytes on the wire are the CloseAck: the pending data was not put on the
  wire before it.
\<close>

theorem close_drops_pending_counterexample:
  "fx_outbox (pool fx_transport_running) = [fx_pending]
   \<and> pipelines fx_transport_running g1 = Some new_PipelineThread
   \<and> result_of (process fx close_g1 fx_transport_running) = Some (Inr ())
   \<and> wire_of (process fx close_g1 fx_transport_running)
       = Some [ps_guid_packet ''CloseAck'' (Some g1)]
   \<and> map_option (fx_outbox \<circ> pool \<circ> snd) (process fx close_g1 fx_transport_running) = Some []
   \<and> map_option (fx_calls \<circ> pool \<circ> snd) (process fx close_g1 fx_transport_running)
       = Some [Call_begin_stop g1, Call_close g1]"
  by (simp add: sample_close_g1 result_of_def wire_of_def)
    (simp add: fx_transport_running_def fx_transport_def fx_pool_running_def)

theorem process_close_pipeline_witness:
  "process_close fx (Some g1) fx_transport_running
   = Some (Inr (), (fx_transport (fx_pool_running
        \<lparr>fx_pipeline_state := (fx_pipeline_state fx_pool_running)(g1 := Stopping),
         fx_outbox := [], fx_calls := [Call_begin_stop g1, Call_close g1]\<rparr>))
      \<lparr>wire := [ps_guid_packet ''CloseAck'' (Some g1)]\<rparr>)"
proof -
  let ?rp1 = "fx_pool_running
      \<lparr>fx_pipeline_state := (fx_pipeline_state fx_pool_running)(g1 := Stopping),
       fx_calls := [Call_begin_stop g1]\<rparr>"
  let ?rp2 = "?rp1\<lparr>fx_calls := [Call_begin_stop g1, Call_close g1]\<rparr>"
  let ?rp3 = "?rp2\<lparr>fx_outbox := []\<rparr>"
  let ?t1 = "fx_transport_running\<lparr>pipelines := (pipelines fx_transport_running)(g1 := None),
      pool := ?rp3\<rparr>"
  have 1: "pipelines fx_transport_running g1 = Some new_PipelineThread"
    by (simp add: fx_transport_running_def)
  have 2: "if pipeline_state fx g1 (pool fx_transport_running) = Running
      then pipeline_begin_stop fx g1 (pool fx_transport_running) = (Inr (), ?rp1)
      else ?rp1 = pool fx_transport_running"
    by (simp add: fx_eval)
  have 3: "pipeline_close fx g1 ?rp1 = (Inr (), ?rp2)"
    by (simp add: fx_eval)
  have 4: "data_to_send fx ?rp2 = (Inr (Some fx_pending), ?rp3)"
    by (simp add: fx_eval)
  have 5: "pipeline_run fx (event_queue new_PipelineThread @ [None])
      (new_PipelineThread\<lparr>event_queue := event_queue new_PipelineThread @ [None]\<rparr>) ?t1
    = (Finished, new_PipelineThread\<lparr>event_queue := [], input_complete := True\<rparr>, ?t1)"
    by (simp add: new_PipelineThread_def)
  from process_close_pipeline [OF 1 2 3 4 5] show ?thesis
    by (simp add: fx_transport_running_def fx_transport_def)
qed

section \<open>Host calls\<close>

lemma wait_for_find: "wait_for P fs s = find P (states_of fs s)"
  by (induction fs arbitrary: s) simp_all

lemma send_data_with_response_eq:
  assumes "send_data x s = (Inr (), s1)"
  shows "send_data_with_response x p c others s =
     (case find (host_wake x p c) (states_of others s1) of
        None \<Rightarrow> None
      | Some s2 \<Rightarrow>
          (case bound_result s2 c of
             Some stored \<Rightarrow>
               (case stored of
                  HostError er \<Rightarrow>
                    Some (Inl (Exn PlainException
                            (''Received error from host call: '' @ Message (Exception er))),
                          s2\<lparr>bound_result := (bound_result s2)(c := None)\<rparr>)
                | HostResult r \<Rightarrow>
                    Some (Inr (HostReturned r), s2\<lparr>bound_result := (bound_result s2)(c := None)\<rparr>))
           | None \<Rightarrow> Some (Inr HostSystemExit, s2)))"
  using assms
  by (auto simp: send_data_with_response_def wait_for_find Let_def split: option.splits)

text \<open>
  C7. A host call with call id \<open>c\<close> blocks until either \<open>c\<close> is in the bound result map
  or the state of the owning pipeline is no longer Running: it returns at the first
  wake-up at which one of the two holds, and never if neither ever holds. On wake, if
  \<open>c\<close> is present its value is removed from the map and returned, or, when the stored
  value is an ErrorRecord, removed and an exception "Received error from host call: ..."
  raised instead; if \<open>c\<close> is absent, the pipeline has left Running and the caller unwinds
  through \<^verbatim>\<open>sys.exit()\<close>.
\<close>

theorem host_call_rendezvous:
  assumes "send_data x s = (Inr (), s1)"
  shows "(send_data_with_response x p c others s = None
            \<longleftrightarrow> (\<forall>s' \<in> set (states_of others s1). \<not> host_wake x p c s'))
       \<and> (\<forall>out. send_data_with_response x p c others s = Some out \<longrightarrow>
            (\<exists>i < length (states_of others s1).
               host_wake x p c (states_of others s1 ! i)
               \<and> (\<forall>j < i. \<not> host_wake x p c (states_of others s1 ! j))
               \<and> (\<forall>r. bound_result (states_of others s1 ! i) c = Some (HostResult r) \<longrightarrow>
                     out = (Inr (HostReturned r),
                            (states_of others s1 ! i)
                              \<lparr>bound_result := (bound_result (states_of others s1 ! i))(c := None)\<rparr>))
               \<and> (\<forall>er. bound_result (states_of others s1 ! i) c = Some (HostError er) \<longrightarrow>
                     out = (Inl (Exn PlainException
                                   (''Received error from host call: ''
                                    @ Message (Exception er))),
                            (states_of others s1 ! i)
                              \<lparr>bound_result := (bound_result (states_of others s1 ! i))(c := None)\<rparr>))
               \<and> (bound_result (states_of others s1 ! i) c = None \<longrightarrow>
                     out = (Inr HostSystemExit, states_of others s1 ! i)
                     \<and> pipeline_state x p (pool (states_of others s1 ! i)) \<noteq> Running)))"
proof -
  note eq = send_data_with_response_eq [OF assms, of p c others]
  have blocked: "send_data_with_response x p c others s = None
      \<longleftrightarrow> (\<forall>s' \<in> set (states_of others s1). \<not> host_wake x p c s')"
  proof
    assume "send_data_with_response x p c others s = None"
    then have "find (host_wake x p c) (states_of others s1) = None"
      unfolding eq by (auto split: option.splits host_value.splits)
    then show "\<forall>s' \<in> set (states_of others s1). \<not> host_wake x p c s'"
      by (simp add: find_None_iff)
  next
    assume "\<forall>s' \<in> set (states_of others s1). \<not> host_wake x p c s'"
    then have "find (host_wake x p c) (states_of others s1) = None"
      by (simp add: find_None_iff)
    then show "send_data_with_response x p c others s = None"
      unfolding eq by simp
  qed
  have woken: "\<exists>i < length (states_of others s1).
       host_wake x p c (states_of others s1 ! i)
       \<and> (\<forall>j < i. \<not> host_wake x p c (states_of others s1 ! j))
       \<and> (\<forall>r. bound_result (states_of others s1 ! i) c = Some (HostResult r) \<longrightarrow>
             out = (Inr (HostReturned r),
                    (states_of others s1 ! i)
                      \<lparr>bound_result := (bound_result (states_of others s1 ! i))(c := None)\<rparr>))
       \<and> (\<forall>er. bound_result (states_of others s1 ! i) c = Some (HostError er) \<longrightarrow>
             out = (Inl (Exn PlainException
                           (''Received error from host call: '' @ Message (Exception er))),
                    (states_of others s1 ! i)
                      \<lparr>bound_result := (bound_result (states_of others s1 ! i))(c := None)\<rparr>))
       \<and> (bound_result (states_of others s1 ! i) c = None \<longrightarrow>
             out = (Inr HostSystemExit, states_of others s1 ! i)
             \<and> pipeline_state x p (pool (states_of others s1 ! i)) \<noteq> Running)"
    if ret: "send_data_with_response x p c others s = Some out" for out
  proof -
    from ret obtain s2 where f: "find (host_wake x p c) (states_of others s1) = Some s2"
      unfolding eq by (auto split: option.splits)
    then obtain i where i: "i < length (states_of others s1)"
      and wake: "host_wake x p c (states_of others s1 ! i)"
      and s2: "s2 = states_of others s1 ! i"
      and first: "\<forall>j < i. \<not> host_wake x p c (states_of others s1 ! j)"
      by (auto simp: find_Some_iff)
    from ret f have out: "out =
        (case bound_result s2 c of
           Some (HostError er) \<Rightarrow>
             (Inl (Exn PlainException
                (''Received error from host call: '' @ Message (Exception er))),
              s2\<lparr>bound_result := (bound_result s2)(c := None)\<rparr>)
         | Some (HostResult r) \<Rightarrow>
             (Inr (HostReturned r), s2\<lparr>bound_result := (bound_result s2)(c := None)\<rparr>)
         | None \<Rightarrow> (Inr HostSystemExit, s2))"
      unfolding eq by (auto split: option.splits host_value.splits)
    have left: "pipeline_state x p (pool s2) \<noteq> Running" if "bound_result s2 c = None"
      using wake that by (simp add: host_wake_def s2)
    show ?thesis
      using i wake first out left unfolding s2
      by (intro exI [of _ i]) simp
  qed
  from blocked woken show ?thesis by blast
qed


lemma fx_world_send_data:
  "send_data fx fx_world
   = (Inr (), fx_world\<lparr>pool := fx_pool_running\<lparr>fx_outbox := []\<rparr>,
                wire := [ps_data_packet ''out'' StreamDefault (Some g1)]\<rparr>)"
  by (simp add: fx_world_def fx_eval act_eval)

theorem host_call_rendezvous_witness:
  "send_data_with_response fx g1 7 [fx_notify] fx_world = None
   \<and> result_of (send_data_with_response fx g1 7 [fx_notify, fx_deliver] fx_world)
       = Some (Inr (HostReturned (Some ''secret'')))
   \<and> stored_of 7 (send_data_with_response fx g1 7 [fx_notify, fx_deliver] fx_world) = Some None
   \<and> result_of (send_data_with_response fx g1 7 [fx_deliver_error] fx_world)
       = Some (Inl (Exn PlainException ''Received error from host call: denied''))
   \<and> stored_of 7 (send_data_with_response fx g1 7 [fx_deliver_error] fx_world) = Some None
   \<and> result_of (send_data_with_response fx g1 7 [fx_notify, fx_begin_stop] fx_world)
       = Some (Inr HostSystemExit)"
proof -
  have blocked: "send_data_with_response fx g1 7 [fx_notify] fx_world = None"
    using host_call_rendezvous [OF fx_world_send_data, of g1 7 "[fx_notify]"]
    by (simp add: host_wake_def fx_notify_def fx_world_def fx_eval)
  have rest: "result_of (send_data_with_response fx g1 7 [fx_notify, fx_deliver] fx_world)
       = Some (Inr (HostReturned (Some ''secret'')))
   \<and> stored_of 7 (send_data_with_response fx g1 7 [fx_notify, fx_deliver] fx_world) = Some None
   \<and> result_of (send_data_with_response fx g1 7 [fx_deliver_error] fx_world)
       = Some (Inl (Exn PlainException ''Received error from host call: denied''))
   \<and> stored_of 7 (send_data_with_response fx g1 7 [fx_deliver_error] fx_world) = Some None
   \<and> result_of (send_data_with_response fx g1 7 [fx_notify, fx_begin_stop] fx_world)
       = Some (Inr HostSystemExit)"
    unfolding send_data_with_response_eq [OF fx_world_send_data]
    by (simp add: result_of_def stored_of_def
        host_wake_def fx_notify_def fx_deliver_def fx_deliver_error_def fx_begin_stop_def
        fx_denied_def fx_world_def fx_eval)
  from blocked rest show ?thesis by blast
qed

section \<open>The script executor\<close>

text \<open>
  C8 (as amended). If the user script raises an execution failure other than a syntax
  error or the cooperative-termination signal, the script executor calls the pipeline's
  \<^verbatim>\<open>write_error\<close> with category NotSpecified, reason \<^verbatim>\<open>UncaughtPythonException\<close> and
  fully-qualified error id \<^verbatim>\<open>UncaughtPythonException\<close> (the message and stack trace are
  those of the exception), and then calls \<^verbatim>\<open>complete()\<close>, whose outcome is the outcome
  of the handler; when \<^verbatim>\<open>write_error\<close> itself raises, \<^verbatim>\<open>complete()\<close> is not called.
\<close>

theorem exec_uncaught_exception:
  assumes "script code cmdlet s = (ScriptRaised e, s1)" and "exn_class e \<noteq> SyntaxError"
  shows "(pipeline_write_error x p
            \<lparr>Message = exn_str e, StackTrace = format_exc x e\<rparr>
            \<lparr>Category = NotSpecified, Activity = None,
             Reason = Some ''UncaughtPythonException'', TargetName = None, TargetType = None\<rparr>
            ''UncaughtPythonException'' (pool s1) = (Inr (), rp2)
          \<and> pipeline_complete x p rp2 = (r, rp3)
         \<longrightarrow> exec_try x script p code cmdlet s = (r, s1\<lparr>pool := rp3\<rparr>))
       \<and> (pipeline_write_error x p
            \<lparr>Message = exn_str e, StackTrace = format_exc x e\<rparr>
            \<lparr>Category = NotSpecified, Activity = None,
             Reason = Some ''UncaughtPythonException'', TargetName = None, TargetType = None\<rparr>
            ''UncaughtPythonException'' (pool s1) = (Inl e2, rp2)
         \<longrightarrow> exec_try x script p code cmdlet s = (Inl e2, s1\<lparr>pool := rp2\<rparr>))"
  using assms
  by (simp add: exec_try_def exec_except_def bind_def on_pool_def)

theorem exec_uncaught_exception_witness:
  "exec_try fx fx_script_raises g1 ''raise Exception('boom')'' (exec_cmdlet fx g1 [] () (pool fx_io)) fx_io
   = (Inr (), fx_io\<lparr>pool := fx_pool0
        \<lparr>fx_pipeline_state := (fx_pipeline_state fx_pool0)(g1 := Completed),
         fx_outbox := [\<lparr>payload_data = ''error'', payload_stream_type = StreamDefault,
                        payload_pipeline_id = Some g1\<rparr>,
                       \<lparr>payload_data = ''completed'', payload_stream_type = StreamDefault,
                        payload_pipeline_id = Some g1\<rparr>],
         fx_calls := [Call_write_error g1
                        \<lparr>Message = ''boom'', StackTrace = ''Traceback (most recent call last)''\<rparr>
                        \<lparr>Category = NotSpecified, Activity = None,
                         Reason = Some ''UncaughtPythonException'',
                         TargetName = None, TargetType = None\<rparr>
                        ''UncaughtPythonException'',
                      Call_complete g1]\<rparr>\<rparr>)"
proof -
  have raised: "fx_script_raises ''raise Exception('boom')'' (exec_cmdlet fx g1 [] () (pool fx_io)) fx_io
      = (ScriptRaised (Exn PlainException ''boom''), fx_io)"
    by (simp add: fx_script_raises_def)
  have cls: "exn_class (Exn PlainException ''boom'') \<noteq> SyntaxError" by simp
  from exec_uncaught_exception [where script = fx_script_raises and code = "''raise Exception('boom')''"
      and cmdlet = "exec_cmdlet fx g1 [] () (pool fx_io)" and s = fx_io and ?s1.0 = fx_io
      and e = "Exn PlainException ''boom''" and x = fx and p = g1 and r = "Inr ()"
      and ?rp2.0 = "fx_queue ''error'' (Some g1) (fx_call (Call_write_error g1
         \<lparr>Message = ''boom'', StackTrace = ''Traceback (most recent call last)''\<rparr>
         \<lparr>Category = NotSpecified, Activity = None, Reason = Some ''UncaughtPythonException'',
          TargetName = None, TargetType = None\<rparr> ''UncaughtPythonException'') fx_pool0)"
      and ?rp3.0 = "fx_queue ''completed'' (Some g1) (fx_call (Call_complete g1) (fx_set_pipeline g1 Completed
        (fx_queue ''error'' (Some g1) (fx_call (Call_write_error g1
         \<lparr>Message = ''boom'', StackTrace = ''Traceback (most recent call last)''\<rparr>
         \<lparr>Category = NotSpecified, Activity = None, Reason = Some ''UncaughtPythonException'',
          TargetName = None, TargetType = None\<rparr> ''UncaughtPythonException'') fx_pool0))))",
      OF raised cls]
  show ?thesis
    by (simp add: fx_io_def fx_eval)
qed

text \<open>
  The script raises \<^verbatim>\<open>Exception("boom")\<close>. The calls the executor makes on the codec are
  \<^verbatim>\<open>start\<close>, \<^verbatim>\<open>write_error\<close> with reason and fully-qualified error id
  \<^verbatim>\<open>UncaughtPythonException\<close>, and \<^verbatim>\<open>complete\<close>: the reason and the error id are not
  the \<^verbatim>\<open>UncaughtScriptException\<close> of the specification.
\<close>

theorem uncaught_exception_id_counterexample:
  "calls_of (PipelineThread_exec fx fx_script_raises g1 ''raise Exception('boom')'' [] () fx_io)
     = [Call_start g1,
        Call_write_error g1
          \<lparr>Message = ''boom'', StackTrace = ''Traceback (most recent call last)''\<rparr>
          \<lparr>Category = NotSpecified, Activity = None, Reason = Some ''UncaughtPythonException'',
           TargetName = None, TargetType = None\<rparr>
          ''UncaughtPythonException'',
        Call_complete g1]
   \<and> calls_of (PipelineThread_exec fx fx_script_raises g1 ''raise Exception('boom')'' [] () fx_io)
     \<noteq> [Call_start g1,
        Call_write_error g1
          \<lparr>Message = ''boom'', StackTrace = ''Traceback (most recent call last)''\<rparr>
          \<lparr>Category = NotSpecified, Activity = None, Reason = Some ''UncaughtScriptException'',
           TargetName = None, TargetType = None\<rparr>
          ''UncaughtScriptException'',
        Call_complete g1]"
  by (simp add: calls_of_def PipelineThread_exec_def exec_try_def exec_except_def exec_cmdlet_def
      fx_script_raises_def fx_io_def fx_eval act_eval)

end
